theory Spec2Isabelle
  imports Complex_Main
begin

section \<open>JavaScript numbers\<close>

text \<open>
  A JavaScript \<^verbatim>\<open>number\<close> is modelled as an exact rational, or one of the three
  non-finite doubles. Rounding of doubles and the sign of zero are not modelled: every
  finite intermediate value is the exact rational the same expression denotes. The
  division sites of the source produce \<open>NaN\<close> and the infinities exactly as
  IEEE division by zero does.
\<close>

datatype jsnum = Fin rat | NaN | PosInf | NegInf

fun js_neg :: "jsnum \<Rightarrow> jsnum" where
  "js_neg (Fin a) = Fin (- a)"
| "js_neg NaN = NaN"
| "js_neg PosInf = NegInf"
| "js_neg NegInf = PosInf"

fun js_add :: "jsnum \<Rightarrow> jsnum \<Rightarrow> jsnum" where
  "js_add (Fin a) (Fin b) = Fin (a + b)"
| "js_add NaN _ = NaN"
| "js_add _ NaN = NaN"
| "js_add PosInf NegInf = NaN"
| "js_add NegInf PosInf = NaN"
| "js_add PosInf _ = PosInf"
| "js_add NegInf _ = NegInf"
| "js_add (Fin a) PosInf = PosInf"
| "js_add (Fin a) NegInf = NegInf"

definition js_sub :: "jsnum \<Rightarrow> jsnum \<Rightarrow> jsnum" where
  "js_sub x y = js_add x (js_neg y)"

text \<open>The sign of a number as JavaScript's multiplication and division use it.\<close>

fun js_sign :: "jsnum \<Rightarrow> int" where
  "js_sign (Fin a) = (if a < 0 then - 1 else if a = 0 then 0 else 1)"
| "js_sign NaN = 0"
| "js_sign PosInf = 1"
| "js_sign NegInf = - 1"

fun js_mul :: "jsnum \<Rightarrow> jsnum \<Rightarrow> jsnum" where
  "js_mul (Fin a) (Fin b) = Fin (a * b)"
| "js_mul NaN _ = NaN"
| "js_mul _ NaN = NaN"
| "js_mul x y =
     (if js_sign x * js_sign y = 0 then NaN
      else if js_sign x * js_sign y > 0 then PosInf else NegInf)"

fun js_div :: "jsnum \<Rightarrow> jsnum \<Rightarrow> jsnum" where
  "js_div (Fin a) (Fin b) =
     (if b = 0 then (if a = 0 then NaN else if a > 0 then PosInf else NegInf)
      else Fin (a / b))"
| "js_div NaN _ = NaN"
| "js_div _ NaN = NaN"
| "js_div (Fin a) _ = Fin 0"
| "js_div x (Fin b) =
     (if (b < 0) = (x = PosInf) then NegInf else PosInf)"
| "js_div _ _ = NaN"

fun js_floor :: "jsnum \<Rightarrow> jsnum" where
  "js_floor (Fin a) = Fin (of_int \<lfloor>a\<rfloor>)"
| "js_floor x = x"

text \<open>Comparisons: every comparison with \<open>NaN\<close> is false.\<close>

fun js_lt :: "jsnum \<Rightarrow> jsnum \<Rightarrow> bool" where
  "js_lt (Fin a) (Fin b) = (a < b)"
| "js_lt NaN _ = False"
| "js_lt _ NaN = False"
| "js_lt (Fin a) PosInf = True"
| "js_lt (Fin a) NegInf = False"
| "js_lt PosInf _ = False"
| "js_lt NegInf NegInf = False"
| "js_lt NegInf _ = True"

definition js_gt :: "jsnum \<Rightarrow> jsnum \<Rightarrow> bool" where
  "js_gt x y = js_lt y x"

definition js_le :: "jsnum \<Rightarrow> jsnum \<Rightarrow> bool" where
  "js_le x y = (x \<noteq> NaN \<and> y \<noteq> NaN \<and> (x = y \<or> js_lt x y))"

definition js_ge :: "jsnum \<Rightarrow> jsnum \<Rightarrow> bool" where
  "js_ge x y = js_le y x"

text \<open>\<^verbatim>\<open>Math.max\<close> and \<^verbatim>\<open>Math.min\<close> of two arguments: \<open>NaN\<close> if either is.\<close>

definition js_max :: "jsnum \<Rightarrow> jsnum \<Rightarrow> jsnum" where
  "js_max x y = (if x = NaN \<or> y = NaN then NaN else if js_lt x y then y else x)"

definition js_min :: "jsnum \<Rightarrow> jsnum \<Rightarrow> jsnum" where
  "js_min x y = (if x = NaN \<or> y = NaN then NaN else if js_lt y x then y else x)"

abbreviation jint :: "int \<Rightarrow> jsnum" where
  "jint i \<equiv> Fin (of_int i)"

text \<open>
  The remainder operator \<^verbatim>\<open>%\<close>: the quotient is truncated towards zero, so the result
  has the sign of the dividend.
\<close>

fun js_rem :: "jsnum \<Rightarrow> jsnum \<Rightarrow> jsnum" where
  "js_rem (Fin a) (Fin m) =
     (if m = 0 then NaN
      else Fin (a - m * of_int (if a / m < 0 then \<lceil>a / m\<rceil> else \<lfloor>a / m\<rfloor>)))"
| "js_rem (Fin a) PosInf = Fin a"
| "js_rem (Fin a) NegInf = Fin a"
| "js_rem _ _ = NaN"

text \<open>
  Reading an array at a number: an element when the number is an index of the array,
  \<^verbatim>\<open>undefined\<close> (\<open>None\<close>) otherwise.
\<close>

fun js_index :: "'a list \<Rightarrow> jsnum \<Rightarrow> 'a option" where
  "js_index xs (Fin q) =
     (if q = of_int \<lfloor>q\<rfloor> \<and> 0 \<le> q \<and> nat \<lfloor>q\<rfloor> < length xs then Some (xs ! nat \<lfloor>q\<rfloor>)
      else None)"
| "js_index xs _ = None"

text \<open>
  The integer an argument of \<^verbatim>\<open>slice\<close> denotes in a string of length \<open>n\<close>: \<open>NaN\<close> is 0,
  a negative number counts from the end, and the result is cut to \<open>0..n\<close>.
\<close>

fun slice_index :: "nat \<Rightarrow> jsnum \<Rightarrow> nat" where
  "slice_index n (Fin q) =
     (let k = (if q < 0 then \<lceil>q\<rceil> else \<lfloor>q\<rfloor>)
      in if k < 0 then nat (max 0 (int n + k)) else min n (nat k))"
| "slice_index n NaN = 0"
| "slice_index n PosInf = n"
| "slice_index n NegInf = 0"

definition js_slice :: "string \<Rightarrow> jsnum \<Rightarrow> jsnum \<Rightarrow> string" where
  "js_slice s start stop =
     (let a = slice_index (length s) start; b = slice_index (length s) stop
      in take (b - a) (drop a s))"

definition js_slice_from :: "string \<Rightarrow> jsnum \<Rightarrow> string" where
  "js_slice_from s start = drop (slice_index (length s) start) s"

section \<open>The environment\<close>

text \<open>
  What the code reads from outside: the clock (\<^verbatim>\<open>Date\<close>) and the stream of draws of
  \<^verbatim>\<open>Math.random\<close>, with the number of draws taken so far.
\<close>

record world =
  clock :: nat
  rnd :: "nat \<Rightarrow> rat"
  rpos :: nat

definition Math_random :: "world \<Rightarrow> jsnum \<times> world" where
  "Math_random w = (Fin (rnd w (rpos w)), w\<lparr>rpos := rpos w + 1\<rparr>)"

text \<open>Exceptions of the source, as values.\<close>

datatype js_error = TypeError | Thrown string | NonTermination

section \<open>Game constants (GameConstants)\<close>

definition MIN_BARCODE_LENGTH :: nat where "MIN_BARCODE_LENGTH = 8"
definition MAX_BARCODE_LENGTH :: nat where "MAX_BARCODE_LENGTH = 20"
definition BASE_HP_MIN :: jsnum where "BASE_HP_MIN = Fin 80"
definition BASE_HP_MAX :: jsnum where "BASE_HP_MAX = Fin 120"
definition BASE_ATTACK_MIN :: jsnum where "BASE_ATTACK_MIN = Fin 30"
definition BASE_ATTACK_MAX :: jsnum where "BASE_ATTACK_MAX = Fin 70"
definition BASE_DEFENSE_MIN :: jsnum where "BASE_DEFENSE_MIN = Fin 25"
definition BASE_DEFENSE_MAX :: jsnum where "BASE_DEFENSE_MAX = Fin 65"
definition BASE_SPEED_MIN :: jsnum where "BASE_SPEED_MIN = Fin 20"
definition BASE_SPEED_MAX :: jsnum where "BASE_SPEED_MAX = Fin 60"
definition BASE_EXPERIENCE_TO_LEVEL :: rat where "BASE_EXPERIENCE_TO_LEVEL = 100"
definition EXPERIENCE_MULTIPLIER :: rat where "EXPERIENCE_MULTIPLIER = 3 / 2"
definition STAT_GROWTH_PER_LEVEL :: int where "STAT_GROWTH_PER_LEVEL = 5"

section \<open>Data model\<close>

text \<open>
  The stats are JavaScript numbers. Level and experience are the integer counters of the
  data model. An identifier is kept symbolic: \<^verbatim>\<open>generateId\<close> builds it from the clock
  and one draw of \<^verbatim>\<open>Math.random\<close>, \<^verbatim>\<open>generateOpponent\<close> from the clock.
\<close>

record stats =
  hp :: jsnum
  maxHp :: jsnum
  attack :: jsnum
  defense :: jsnum
  speed :: jsnum

datatype ident = GeneratedId nat jsnum | OpponentId nat

record creature =
  creature_id :: ident
  name :: string
  barcode :: string
  cstats :: stats
  level :: int
  experience :: int
  experienceToNext :: int
  discoveryDate :: nat
  battlesWon :: int
  battlesLost :: int

section \<open>GameUtils and DataValidation\<close>

definition generateId :: "world \<Rightarrow> ident \<times> world" where
  "generateId w = (let (r, w') = Math_random w in (GeneratedId (clock w) r, w'))"

text \<open>
  \<^verbatim>\<open>Math.floor(BASE * Math.pow(MULT, level - 1))\<close>; a negative exponent is the
  reciprocal power. The power and the product are exact here, where the code rounds both
  to doubles: up to level 31 every value is an integer below \<open>2^53\<close> over a power of two
  and nothing is rounded; at high levels the floor of the code can differ from this one
  by one (with correctly rounded doubles, first at level 77). No result below depends on
  a value of this function above level 52.
\<close>

definition calculateExperienceToNext :: "int \<Rightarrow> int" where
  "calculateExperienceToNext lvl =
     \<lfloor>BASE_EXPERIENCE_TO_LEVEL *
       (if 1 \<le> lvl then EXPERIENCE_MULTIPLIER ^ nat (lvl - 1)
        else 1 / EXPERIENCE_MULTIPLIER ^ nat (1 - lvl))\<rfloor>"

definition calculateStatAtLevel :: "jsnum \<Rightarrow> int \<Rightarrow> jsnum" where
  "calculateStatAtLevel baseStat lvl =
     js_add baseStat (jint ((lvl - 1) * STAT_GROWTH_PER_LEVEL))"

definition clamp :: "jsnum \<Rightarrow> jsnum \<Rightarrow> jsnum \<Rightarrow> jsnum" where
  "clamp v lo hi = js_min (js_max v lo) hi"

section \<open>BarcodeProcessor: validation\<close>

text \<open>
  Strings are lists of characters. \<^verbatim>\<open>\d\<close> in a JavaScript regular expression is
  exactly the ten ASCII digits, and \<^verbatim>\<open>$\<close> without the multiline flag matches only at
  the end of the input, so \<^verbatim>\<open>/^\d+$/.test(s)\<close> holds when \<open>s\<close> is non-empty and
  every character is a digit.
\<close>

definition is_digit :: "char \<Rightarrow> bool" where
  "is_digit c = (48 \<le> (of_char c :: nat) \<and> (of_char c :: nat) \<le> 57)"

definition test_digits :: "string \<Rightarrow> bool" where
  "test_digits s = (s \<noteq> [] \<and> list_all is_digit s)"

text \<open>
  \<^verbatim>\<open>validateBarcode\<close>; the \<^verbatim>\<open>typeof barcode !== 'string'\<close> test is the type of
  the argument.
\<close>

definition validateBarcode :: "string \<Rightarrow> bool" where
  "validateBarcode b =
     (if length b < MIN_BARCODE_LENGTH then False
      else if length b > MAX_BARCODE_LENGTH then False
      else if \<not> test_digits b then False
      else True)"

definition isValidBarcode :: "string \<Rightarrow> bool" where
  "isValidBarcode b = (if length b < 8 then False else test_digits b)"

text \<open>
  \<^verbatim>\<open>isValidCreatureStats\<close>: each field is a number that is not below 0 (a test that
  \<open>NaN\<close> passes), and \<^verbatim>\<open>hp <= maxHp\<close>.
\<close>

definition isValidCreatureStats :: "stats \<Rightarrow> bool" where
  "isValidCreatureStats st =
     (if list_ex (\<lambda>v. js_lt v (Fin 0)) [hp st, maxHp st, attack st, defense st, speed st]
      then False
      else js_le (hp st) (maxHp st))"

definition isValidCreature :: "creature \<Rightarrow> bool" where
  "isValidCreature c =
     (if \<not> isValidBarcode (barcode c) then False
      else if level c < 1 then False
      else if experience c < 0 then False
      else isValidCreatureStats (cstats c))"

section \<open>BarcodeProcessor: the seeded generator\<close>

text \<open>\<^verbatim>\<open>parseInt\<close> of one character: its value for a digit, \<open>NaN\<close> otherwise.\<close>

definition parseInt_char :: "char \<Rightarrow> jsnum" where
  "parseInt_char c = (if is_digit c then jint (int (of_char c) - 48) else NaN)"

fun generateSeed_loop :: "string \<Rightarrow> nat \<Rightarrow> jsnum \<Rightarrow> jsnum" where
  "generateSeed_loop [] i seed = seed"
| "generateSeed_loop (c # cs) i seed =
     generateSeed_loop cs (i + 1)
       (js_add seed (js_mul (js_mul (parseInt_char c) (jint (int i + 1))) (Fin 31)))"

definition generateSeed :: "string \<Rightarrow> jsnum" where
  "generateSeed b = generateSeed_loop b 0 (Fin 0)"

text \<open>
  \<^verbatim>\<open>createSeededRandom\<close> returns a closure over the variable \<^verbatim>\<open>current\<close>. The model
  of the closure is the value of that variable: \<open>createSeededRandom\<close> gives its first
  value, \<open>seeded_random\<close> is one call of the closure, returning the draw and the new
  value of the variable.
\<close>

definition createSeededRandom :: "jsnum \<Rightarrow> jsnum" where
  "createSeededRandom seed =
     (let current = js_rem seed (Fin 2147483647)
      in if js_le current (Fin 0) then js_add current (Fin 2147483646) else current)"

definition seeded_random :: "jsnum \<Rightarrow> jsnum \<times> jsnum" where
  "seeded_random current =
     (let current' = js_rem (js_mul current (Fin 16807)) (Fin 2147483647)
      in (js_div (js_sub current' (Fin 1)) (Fin 2147483646), current'))"

text \<open>The first \<open>n\<close> draws of a generator.\<close>

fun draws :: "nat \<Rightarrow> jsnum \<Rightarrow> jsnum list" where
  "draws 0 current = []"
| "draws (Suc n) current = (let (r, c) = seeded_random current in r # draws n c)"

section \<open>BarcodeProcessor: stats\<close>

fun sum_positions :: "string \<Rightarrow> nat list \<Rightarrow> jsnum \<Rightarrow> jsnum" where
  "sum_positions b [] acc = acc"
| "sum_positions b (pos # ps) acc =
     sum_positions b ps
       (if pos < length b then js_add acc (parseInt_char (b ! pos)) else acc)"

definition getStatFromDigits :: "string \<Rightarrow> nat list \<Rightarrow> jsnum \<Rightarrow> jsnum \<Rightarrow> jsnum" where
  "getStatFromDigits b positions lo hi =
     (let total = sum_positions b positions (Fin 0);
          span = js_sub hi lo;
          maxSum = jint (int (length positions) * 9);
          normalized = js_div total maxSum
      in js_add lo (js_floor (js_mul normalized span)))"

definition calculateStats :: "string \<Rightarrow> stats" where
  "calculateStats b =
     (let random0 = createSeededRandom (generateSeed b);
          hpBase = getStatFromDigits b [0, 1] BASE_HP_MIN BASE_HP_MAX;
          attackBase = getStatFromDigits b [2, 3] BASE_ATTACK_MIN BASE_ATTACK_MAX;
          defenseBase = getStatFromDigits b [4, 5] BASE_DEFENSE_MIN BASE_DEFENSE_MAX;
          speedBase = getStatFromDigits b [6, 7] BASE_SPEED_MIN BASE_SPEED_MAX;
          (r1, random1) = seeded_random random0;
          hp0 = js_floor (js_add hpBase (js_sub (js_mul r1 (Fin 20)) (Fin 10)));
          (r2, random2) = seeded_random random1;
          attack0 = js_floor (js_add attackBase (js_sub (js_mul r2 (Fin 10)) (Fin 5)));
          (r3, random3) = seeded_random random2;
          defense0 = js_floor (js_add defenseBase (js_sub (js_mul r3 (Fin 10)) (Fin 5)));
          (r4, random4) = seeded_random random3;
          speed0 = js_floor (js_add speedBase (js_sub (js_mul r4 (Fin 10)) (Fin 5)))
      in \<lparr> hp = clamp hp0 BASE_HP_MIN BASE_HP_MAX,
           maxHp = clamp hp0 BASE_HP_MIN BASE_HP_MAX,
           attack = clamp attack0 BASE_ATTACK_MIN BASE_ATTACK_MAX,
           defense = clamp defense0 BASE_DEFENSE_MIN BASE_DEFENSE_MAX,
           speed = clamp speed0 BASE_SPEED_MIN BASE_SPEED_MAX \<rparr>)"

section \<open>BarcodeProcessor: names\<close>

definition syllables :: "string list" where
  "syllables =
     [
      ''ka'', ''ri'', ''mo'', ''na'', ''zu'', ''te'', ''lo'', ''xi'', ''ba'', ''do'',
      ''fe'', ''gu'', ''hi'', ''ja'', ''ko'', ''lu'', ''me'', ''no'', ''po'', ''qu'',
      ''ra'', ''si'', ''tu'', ''vo'', ''wa'', ''xe'', ''ya'', ''zi'', ''bo'', ''cu'',
      ''da'', ''el'', ''fi'', ''go'', ''hu'', ''iv'', ''jo'', ''ke'', ''li'', ''ma'',
      ''ar'', ''en'', ''or'', ''un'', ''al'', ''er'', ''in'', ''on'', ''at'', ''ed'',
      ''is'', ''it'', ''ou'', ''an'', ''he'', ''wa'', ''fo'', ''nd'', ''ng'', ''ha'',
      ''th'', ''re'', ''ve'', ''st'', ''gh'', ''nd'', ''le'', ''se'', ''nt'', ''ti'',
      ''ro'', ''ur'', ''li'', ''ch'', ''la'', ''ne'', ''mi'', ''el'', ''co'', ''de'']"

datatype name_style = Short | Medium | Long

record name_pattern =
  minLength :: int
  maxLength :: int
  style :: name_style

definition namePatterns :: "name_pattern list" where
  "namePatterns =
     [\<lparr>minLength = 2, maxLength = 3, style = Short\<rparr>,
      \<lparr>minLength = 3, maxLength = 4, style = Medium\<rparr>,
      \<lparr>minLength = 4, maxLength = 5, style = Long\<rparr>]"

text \<open>
  A syllable read at an index outside the table is \<^verbatim>\<open>undefined\<close> (\<open>None\<close>); appended
  to a string it reads \<^verbatim>\<open>undefined\<close>.
\<close>

definition syllable_text :: "string option \<Rightarrow> string" where
  "syllable_text syl = (case syl of None \<Rightarrow> ''undefined'' | Some t \<Rightarrow> t)"

text \<open>
  The \<^verbatim>\<open>do ... while\<close> loop that draws one syllable: \<open>attempts\<close> is the counter before
  the draw, \<open>short\<close> is \<^verbatim>\<open>nameLength <= 3\<close>.
\<close>

function pick_syllable ::
  "bool \<Rightarrow> string option list \<Rightarrow> jsnum \<Rightarrow> nat \<Rightarrow> string option \<times> jsnum" where
  "pick_syllable short used random attempts =
     (if short
           \<and> js_index syllables
               (js_floor (js_mul (fst (seeded_random random)) (jint (int (length syllables)))))
             \<in> set used
           \<and> attempts + 1 < 10
      then pick_syllable short used (snd (seeded_random random)) (attempts + 1)
      else (js_index syllables
              (js_floor (js_mul (fst (seeded_random random)) (jint (int (length syllables))))),
            snd (seeded_random random)))"
  by pat_completeness auto
termination
  by (relation "measure (\<lambda>(short, used, random, attempts). 10 - attempts)") auto

declare pick_syllable.simps [simp del]

text \<open>The \<^verbatim>\<open>for\<close> loop over \<open>i < nameLength\<close>, for a finite \<open>nameLength\<close>.\<close>

function name_loop ::
  "rat \<Rightarrow> nat \<Rightarrow> bool \<Rightarrow> jsnum \<Rightarrow> string option list \<Rightarrow> string \<Rightarrow> string \<times> jsnum" where
  "name_loop n i short random used nm =
     (if of_nat i < n
      then (let (syl, random') = pick_syllable short used random 0
            in name_loop n (i + 1) short random' (used @ [syl]) (nm @ syllable_text syl))
      else (nm, random))"
  by pat_completeness auto
termination
proof (relation "measure (\<lambda>(n, i, short, random, used, nm). nat \<lceil>n\<rceil> - i)")
  show "wf (measure (\<lambda>(n, i, short, random, used, nm). nat \<lceil>n\<rceil> - i))"
    by simp
next
  fix n :: rat and i :: nat and short :: bool and random :: jsnum
    and used :: "string option list" and nm :: string and x xa y
  assume "of_nat i < n"
  then have "int i < \<lceil>n\<rceil>"
    by (simp add: less_ceiling_iff)
  then show "((n, i + 1, short, y, used @ [xa], nm @ syllable_text xa), n, i, short, random, used, nm)
      \<in> measure (\<lambda>(n, i, short, random, used, nm). nat \<lceil>n\<rceil> - i)"
    by simp
qed

declare name_loop.simps [simp del]

definition applyNameStyling :: "string \<Rightarrow> name_style \<Rightarrow> jsnum \<Rightarrow> string" where
  "applyNameStyling nm st random =
     (case st of
        Short \<Rightarrow>
          (let (r, random1) = seeded_random random
           in if js_lt r (Fin (3 / 10))
              then (let (r2, random2) = seeded_random random1;
                        pos = js_add (js_floor (js_mul r2 (jint (int (length nm) - 1)))) (Fin 1)
                    in case js_index nm pos of
                         None \<Rightarrow> nm
                       | Some ch \<Rightarrow>
                           if ch \<in> set ''bcdfghjklmnpqrstvwxyz''
                           then js_slice nm (Fin 0) pos @ [ch] @ js_slice_from nm pos
                           else nm)
              else nm)
      | Medium \<Rightarrow> nm
      | Long \<Rightarrow>
          (let (r, random1) = seeded_random random
           in if js_lt r (Fin (1 / 5)) \<and> length nm > 4
              then (let (r2, random2) = seeded_random random1;
                        pos = js_add (js_floor (js_mul r2 (jint (int (length nm) - 2)))) (Fin 2)
                    in js_slice nm (Fin 0) pos @ [CHR 0x27] @ js_slice_from nm pos)
              else nm))"

text \<open>\<^verbatim>\<open>toUpperCase\<close> on one character: the ASCII lower-case letters change.\<close>

definition toUpperCase_char :: "char \<Rightarrow> char" where
  "toUpperCase_char c =
     (if 97 \<le> (of_char c :: nat) \<and> (of_char c :: nat) \<le> 122
      then char_of ((of_char c :: nat) - 32) else c)"

definition capitalize :: "string \<Rightarrow> string" where
  "capitalize nm = (case nm of [] \<Rightarrow> [] | c # cs \<Rightarrow> toUpperCase_char c # cs)"

text \<open>
  \<^verbatim>\<open>generateCreatureName\<close>. Reading \<^verbatim>\<open>pattern.minLength\<close> of an undefined pattern
  throws a TypeError; an infinite \<^verbatim>\<open>nameLength\<close> would never leave the loop.
\<close>

definition generateCreatureName :: "string \<Rightarrow> js_error + string" where
  "generateCreatureName b =
     (let seed = generateSeed b;
          random0 = createSeededRandom seed;
          (r1, random1) = seeded_random random0;
          patternIndex = js_floor (js_mul r1 (jint (int (length namePatterns))))
      in case js_index namePatterns patternIndex of
           None \<Rightarrow> Inl TypeError
         | Some pattern \<Rightarrow>
             (let (r2, random2) = seeded_random random1;
                  nameLength = js_add (jint (minLength pattern))
                     (js_floor (js_mul r2 (jint (maxLength pattern - minLength pattern + 1))))
              in case nameLength of
                   PosInf \<Rightarrow> Inl NonTermination
                 | _ \<Rightarrow>
                     (let (nm, random3) =
                            (case nameLength of
                               Fin n \<Rightarrow> name_loop n 0 (js_le nameLength (Fin 3)) random2 [] []
                             | _ \<Rightarrow> ([], random2))
                      in Inr (capitalize (applyNameStyling nm (style pattern) random3)))))"

section \<open>BarcodeProcessor: creatures\<close>

text \<open>
  \<^verbatim>\<open>generateCreature\<close> returns \<^verbatim>\<open>null\<close> (\<open>None\<close>) for an invalid barcode or an invalid
  creature; an exception of the name generation passes through.
\<close>

definition generateCreature :: "world \<Rightarrow> string \<Rightarrow> (js_error + creature option) \<times> world" where
  "generateCreature w b =
     (if \<not> validateBarcode b then (Inr None, w)
      else
        (let st = calculateStats b
         in case generateCreatureName b of
              Inl e \<Rightarrow> (Inl e, w)
            | Inr nm \<Rightarrow>
                (let (i, w') = generateId w;
                     c = \<lparr> creature_id = i, name = nm, barcode = b, cstats = st, level = 1,
                           experience = 0,
                           experienceToNext = calculateExperienceToNext 1,
                           discoveryDate = clock w', battlesWon = 0, battlesLost = 0 \<rparr>
                 in if \<not> isValidCreature c then (Inr None, w') else (Inr (Some c), w'))))"

text \<open>Predicates used to state the properties of the generator.\<close>

definition good_current :: "jsnum \<Rightarrow> bool" where
  "good_current c =
     (case c of Fin q \<Rightarrow> q = of_int \<lfloor>q\<rfloor> \<and> 1 \<le> q \<and> q \<le> 2147483646 | _ \<Rightarrow> False)"

definition unit_draw :: "jsnum \<Rightarrow> bool" where
  "unit_draw r = (case r of Fin q \<Rightarrow> 0 \<le> q \<and> q < 1 | _ \<Rightarrow> False)"

section \<open>CreatureManager: experience and levels\<close>

text \<open>
  The manager holds the collection, a map from identifiers to creatures, and writes to
  the console. Saving to storage is wrapped in \<^verbatim>\<open>try ... catch\<close> and changes neither the
  collection nor a result, so it is left out.
\<close>

datatype severity = LogLevel | WarnLevel | ErrorLevel

record manager =
  creatures :: "ident \<rightharpoonup> creature"
  console :: "(severity \<times> string) list"

record levelUpResult =
  leveledUp :: bool
  lu_levelsGained :: nat
  lu_newLevel :: int

record stat_gains =
  gain_maxHp :: jsnum
  gain_attack :: jsnum
  gain_defense :: jsnum
  gain_speed :: jsnum

datatype award_result =
    AwardFailure string
  | is_success: AwardSuccess (experienceGained: int) (oldLevel: int) (newLevel: int) (levelsGained: int)
      (oldStats: stats) (newStats: stats) (statGains: stat_gains)

text \<open>
  \<^verbatim>\<open>updateStatsForLevel\<close>. The ratio \<^verbatim>\<open>hp / maxHp\<close> and its product with the new
  \<^verbatim>\<open>maxHp\<close> are exact here, where the code rounds both to doubles: when the exact product
  is an integer the code's floor can be one below it (\<^verbatim>\<open>Math.floor(85 * (49 / 85))\<close> is 48).
  No result below depends on a rounded value of this product; a ratio of \<^verbatim>\<open>0 / 0\<close> is
  \<open>NaN\<close> in both.
\<close>

definition updateStatsForLevel :: "creature \<Rightarrow> creature" where
  "updateStatsForLevel c =
     (let baseStats = calculateStats (barcode c);
          newMaxHp = calculateStatAtLevel (maxHp baseStats) (level c);
          newAttack = calculateStatAtLevel (attack baseStats) (level c);
          newDefense = calculateStatAtLevel (defense baseStats) (level c);
          newSpeed = calculateStatAtLevel (speed baseStats) (level c);
          hpRatio = js_div (hp (cstats c)) (maxHp (cstats c))
      in c\<lparr>cstats := \<lparr> hp = js_max (Fin 1) (js_floor (js_mul newMaxHp hpRatio)),
                         maxHp = newMaxHp, attack = newAttack, defense = newDefense,
                         speed = newSpeed \<rparr>\<rparr>)"

text \<open>
  The \<^verbatim>\<open>while\<close> loop of \<^verbatim>\<open>checkLevelUp\<close>. \<open>gained\<close> is \<^verbatim>\<open>levelsGained\<close> on entry to an
  iteration; the result carries the creature, \<^verbatim>\<open>levelsGained\<close>, and whether the loop was
  left through the \<^verbatim>\<open>break\<close> of the safety check (which writes the warning).
\<close>

function checkLevelUp_loop :: "creature \<Rightarrow> nat \<Rightarrow> creature \<times> nat \<times> bool" where
  "checkLevelUp_loop c gained =
     (if experience c \<ge> experienceToNext c
      then (let c1 = c\<lparr>experience := experience c - experienceToNext c, level := level c + 1\<rparr>;
                c2 = updateStatsForLevel c1;
                c3 = c2\<lparr>experienceToNext := calculateExperienceToNext (level c2)\<rparr>
            in if gained + 1 > 50 then (c3, gained + 1, True)
               else checkLevelUp_loop c3 (gained + 1))
      else (c, gained, False))"
  by pat_completeness auto
termination
  by (relation "measure (\<lambda>(c, gained). 51 - gained)") auto

declare checkLevelUp_loop.simps [simp del]

definition checkLevelUp :: "creature \<Rightarrow> creature \<times> levelUpResult \<times> (severity \<times> string) list" where
  "checkLevelUp c =
     (let (c', gained, stopped) = checkLevelUp_loop c 0
      in (c',
          \<lparr> leveledUp = (gained > 0), lu_levelsGained = gained, lu_newLevel = level c' \<rparr>,
          if stopped then [(WarnLevel, ''Prevented excessive level gain for creature:'')] else []))"

definition calculateStatGains :: "stats \<Rightarrow> stats \<Rightarrow> stat_gains" where
  "calculateStatGains old new =
     \<lparr> gain_maxHp = js_sub (maxHp new) (maxHp old),
       gain_attack = js_sub (attack new) (attack old),
       gain_defense = js_sub (defense new) (defense old),
       gain_speed = js_sub (speed new) (speed old) \<rparr>"

definition awardExperience :: "manager \<Rightarrow> ident \<Rightarrow> int \<Rightarrow> award_result \<times> manager" where
  "awardExperience m creatureId gainedXp =
     (case creatures m creatureId of
        None \<Rightarrow>
          (AwardFailure ''Creature not found'',
           m\<lparr>console := console m @ [(ErrorLevel, ''Creature not found'')]\<rparr>)
      | Some c \<Rightarrow>
          if gainedXp < 0
          then (AwardFailure ''Invalid experience amount'',
                m\<lparr>console := console m @ [(ErrorLevel, ''Experience gained cannot be negative'')]\<rparr>)
          else
            (let c1 = c\<lparr>experience := experience c + gainedXp\<rparr>;
                 (c2, levelUp, warnings) = checkLevelUp c1
             in (AwardSuccess gainedXp (level c) (level c2) (level c2 - level c)
                   (cstats c) (cstats c2) (calculateStatGains (cstats c) (cstats c2)),
                 m\<lparr>creatures := (creatures m)(creatureId \<mapsto> c2),
                   console := console m @ warnings @
                     [(LogLevel, if leveledUp levelUp then ''gained XP and leveled up''
                                 else ''gained XP'')]\<rparr>)))"

text \<open>
  The control of the loop alone: experience, \<^verbatim>\<open>experienceToNext\<close>, level and the
  counter, without the stats. It is used to follow the loop on concrete inputs.
\<close>

function level_loop :: "int \<Rightarrow> int \<Rightarrow> int \<Rightarrow> nat \<Rightarrow> int \<times> int \<times> int \<times> nat \<times> bool" where
  "level_loop xp toNext lvl gained =
     (if xp \<ge> toNext
      then (if gained + 1 > 50
            then (xp - toNext, calculateExperienceToNext (lvl + 1), lvl + 1, gained + 1, True)
            else level_loop (xp - toNext) (calculateExperienceToNext (lvl + 1)) (lvl + 1)
                   (gained + 1))
      else (xp, toNext, lvl, gained, False))"
  by pat_completeness auto
termination
  by (relation "measure (\<lambda>(xp, toNext, lvl, gained). 51 - gained)") auto

declare level_loop.simps [simp del]

text \<open>Creatures and collections used as concrete inputs.\<close>

definition sample_creature :: creature where
  "sample_creature =
     \<lparr> creature_id = GeneratedId 0 (Fin 0), name = ''Ivarno'', barcode = ''12345678'',
       cstats = \<lparr>hp = Fin 80, maxHp = Fin 80, attack = Fin 48, defense = Fin 48, speed = Fin 53\<rparr>,
       level = 1, experience = 0, experienceToNext = 100, discoveryDate = 0,
       battlesWon = 0, battlesLost = 0 \<rparr>"

definition sample_manager :: "creature \<Rightarrow> manager" where
  "sample_manager c = \<lparr> creatures = [creature_id c \<mapsto> c], console = [] \<rparr>"

definition pending_creature :: creature where
  "pending_creature = sample_creature\<lparr>experience := 150\<rparr>"

definition zero_maxhp_creature :: creature where
  "zero_maxhp_creature =
     sample_creature\<lparr>cstats :=
       \<lparr>hp = Fin 0, maxHp = Fin 0, attack = Fin 48, defense = Fin 48, speed = Fin 53\<rparr>\<rparr>"

section \<open>DifficultyManager\<close>

text \<open>
  Difficulties are strings. \<^verbatim>\<open>battleStats\<close> is \<^verbatim>\<open>undefined\<close> (\<open>None\<close>) until the first
  result is recorded; then it is an object, kept as the list of its entries in insertion
  order. Dispatched events are collected in a list. Persisting the progress is wrapped
  in \<^verbatim>\<open>try ... catch\<close> and is left out.
\<close>

record battle_counts =
  wins :: int
  losses :: int

datatype dm_event = DifficultyChanged string | DifficultyUnlocked string | ProgressUpdated

record difficulty_config =
  config_name :: string
  opponentStatMultiplier :: rat
  experienceMultiplier :: rat
  aiPersonalityWeights :: "(string \<times> rat) list"
  specialAttackFrequency :: rat
  criticalHitChance :: rat

record dm =
  currentDifficulty :: string
  unlockedDifficulties :: "string list"
  battleStats :: "(string \<times> battle_counts) list option"
  dm_events :: "dm_event list"

text \<open>
  \<^verbatim>\<open>initializeDifficultyStats\<close>. The object literal of the hard tier names the key
  \<^verbatim>\<open>Berserker\<close> twice; the later value replaces the earlier one.
\<close>

definition easy_config :: difficulty_config where
  "easy_config =
     \<lparr> config_name = ''Easy'', opponentStatMultiplier = 4 / 5, experienceMultiplier = 1,
       aiPersonalityWeights = [(''Aggressive'', 1 / 10), (''Defensive'', 2 / 5),
         (''Tactical'', 1 / 5), (''Berserker'', 1 / 20), (''Cautious'', 1 / 4)],
       specialAttackFrequency = 1 / 5, criticalHitChance = 1 / 20 \<rparr>"

definition medium_config :: difficulty_config where
  "medium_config =
     \<lparr> config_name = ''Medium'', opponentStatMultiplier = 1, experienceMultiplier = 6 / 5,
       aiPersonalityWeights = [(''Aggressive'', 1 / 4), (''Defensive'', 1 / 4),
         (''Tactical'', 3 / 10), (''Berserker'', 1 / 10), (''Cautious'', 1 / 10)],
       specialAttackFrequency = 7 / 20, criticalHitChance = 1 / 10 \<rparr>"

definition hard_config :: difficulty_config where
  "hard_config =
     \<lparr> config_name = ''Hard'', opponentStatMultiplier = 13 / 10, experienceMultiplier = 3 / 2,
       aiPersonalityWeights = [(''Aggressive'', 3 / 10), (''Defensive'', 3 / 20),
         (''Tactical'', 2 / 5), (''Berserker'', 1 / 20)],
       specialAttackFrequency = 1 / 2, criticalHitChance = 3 / 20 \<rparr>"

definition difficultyStats :: "(string \<times> difficulty_config) list" where
  "difficultyStats =
     [(''easy'', easy_config), (''medium'', medium_config), (''hard'', hard_config)]"

text \<open>\<^verbatim>\<open>getProgressionRequirements\<close>.\<close>

definition medium_battlesWon :: int where "medium_battlesWon = 5"
definition hard_battlesWon :: int where "hard_battlesWon = 15"
definition hard_mediumWins :: int where "hard_mediumWins = 8"

text \<open>The manager as the constructor leaves it when no progress was saved.\<close>

definition dm_init :: dm where
  "dm_init = \<lparr> currentDifficulty = ''easy'', unlockedDifficulties = [''easy''],
               battleStats = None, dm_events = [] \<rparr>"

text \<open>
  \<^verbatim>\<open>v || d\<close> for a string \<open>v\<close> that may be \<^verbatim>\<open>null\<close> or \<^verbatim>\<open>undefined\<close> (\<open>None\<close>): the
  empty string is falsy too.
\<close>

definition or_default :: "string option \<Rightarrow> string \<Rightarrow> string" where
  "or_default v d = (case v of None \<Rightarrow> d | Some x \<Rightarrow> if x = [] then d else x)"

definition getDifficultyConfig :: "dm \<Rightarrow> string option \<Rightarrow> difficulty_config" where
  "getDifficultyConfig s difficulty =
     (let targetDifficulty = or_default difficulty (currentDifficulty s)
      in case map_of difficultyStats targetDifficulty of
           Some cfg \<Rightarrow> cfg
         | None \<Rightarrow> easy_config)"

definition isValidDifficulty :: "string \<Rightarrow> bool" where
  "isValidDifficulty d = (d \<in> set (map fst difficultyStats))"

definition isDifficultyUnlocked :: "dm \<Rightarrow> string \<Rightarrow> bool" where
  "isDifficultyUnlocked s d = (d \<in> set (unlockedDifficulties s))"

definition unlockDifficulty :: "dm \<Rightarrow> string \<Rightarrow> dm" where
  "unlockDifficulty s d =
     (if \<not> isValidDifficulty d then s
      else if isDifficultyUnlocked s d then s
      else s\<lparr>unlockedDifficulties := unlockedDifficulties s @ [d],
             dm_events := dm_events s @ [DifficultyUnlocked d]\<rparr>)"

definition getTotalWins :: "dm \<Rightarrow> int" where
  "getTotalWins s =
     (case battleStats s of
        None \<Rightarrow> 0
      | Some entries \<Rightarrow> foldl (\<lambda>total st. total + wins st) 0 (map snd entries))"

text \<open>
  \<^verbatim>\<open>checkDifficultyUnlocks\<close> reads \<^verbatim>\<open>this.battleStats.medium\<close>, which throws when
  \<^verbatim>\<open>battleStats\<close> is undefined.
\<close>

definition checkDifficultyUnlocks :: "dm \<Rightarrow> js_error option \<times> dm" where
  "checkDifficultyUnlocks s =
     (case battleStats s of
        None \<Rightarrow> (Some TypeError, s)
      | Some entries \<Rightarrow>
          (let totalWins = getTotalWins s;
               mediumWins = (case map_of entries ''medium'' of Some st \<Rightarrow> wins st | None \<Rightarrow> 0);
               s1 = (if \<not> isDifficultyUnlocked s ''medium''
                     then (if totalWins \<ge> medium_battlesWon then unlockDifficulty s ''medium''
                           else s)
                     else s);
               s2 = (if \<not> isDifficultyUnlocked s1 ''hard''
                     then (if totalWins \<ge> hard_battlesWon \<and> mediumWins \<ge> hard_mediumWins
                           then unlockDifficulty s1 ''hard'' else s1)
                     else s1)
           in (None, s2)))"

record battle_outcome =
  won :: bool
  outcome_difficulty :: "string option"

text \<open>Adding one to the \<^verbatim>\<open>wins\<close> or \<^verbatim>\<open>losses\<close> of the entry of a difficulty.\<close>

definition count_result :: "bool \<Rightarrow> string \<Rightarrow> (string \<times> battle_counts) list \<Rightarrow> (string \<times> battle_counts) list" where
  "count_result w d entries =
     map (\<lambda>(k, st). if k = d
            then (k, if w then st\<lparr>wins := wins st + 1\<rparr> else st\<lparr>losses := losses st + 1\<rparr>)
            else (k, st)) entries"

text \<open>
  \<^verbatim>\<open>recordBattleResult\<close>, for a result whose \<^verbatim>\<open>won\<close> is a boolean. Reading
  \<^verbatim>\<open>this.battleStats[difficulty].wins\<close> throws a TypeError when the object has no
  entry for the difficulty; \<^verbatim>\<open>battleStats\<close> has then already been initialised.
\<close>

definition recordBattleResult :: "dm \<Rightarrow> battle_outcome \<Rightarrow> js_error option \<times> dm" where
  "recordBattleResult s r =
     (let s1 = (case battleStats s of
                  None \<Rightarrow> s\<lparr>battleStats := Some
                     [(''easy'', \<lparr>wins = 0, losses = 0\<rparr>),
                      (''medium'', \<lparr>wins = 0, losses = 0\<rparr>),
                      (''hard'', \<lparr>wins = 0, losses = 0\<rparr>)]\<rparr>
                | Some entries \<Rightarrow> s);
          difficulty = or_default (outcome_difficulty r) (currentDifficulty s1);
          entries = (case battleStats s1 of Some es \<Rightarrow> es | None \<Rightarrow> [])
      in case map_of entries difficulty of
           None \<Rightarrow> (Some TypeError, s1)
         | Some st \<Rightarrow>
             (let s2 = s1\<lparr>battleStats := Some (count_result (won r) difficulty entries)\<rparr>
              in case checkDifficultyUnlocks s2 of
                   (Some e, s3) \<Rightarrow> (Some e, s3)
                 | (None, s3) \<Rightarrow> (None, s3\<lparr>dm_events := dm_events s3 @ [ProgressUpdated]\<rparr>)))"

text \<open>
  Recording a sequence of results, one call after the other; a call that throws leaves
  the state it had reached.
\<close>

fun record_results :: "dm \<Rightarrow> battle_outcome list \<Rightarrow> dm" where
  "record_results s [] = s"
| "record_results s (r # rs) = record_results (snd (recordBattleResult s r)) rs"

text \<open>
  The wins of a sequence of results recorded by a manager whose current difficulty is
  \<open>cur\<close>: the results that were won on one of the three difficulties, and those won
  on medium.
\<close>

definition effective_difficulty :: "string \<Rightarrow> battle_outcome \<Rightarrow> string" where
  "effective_difficulty cur r = or_default (outcome_difficulty r) cur"

definition total_wins :: "string \<Rightarrow> battle_outcome list \<Rightarrow> int" where
  "total_wins cur rs =
     int (length (filter (\<lambda>r. won r \<and> isValidDifficulty (effective_difficulty cur r)) rs))"

definition medium_wins :: "string \<Rightarrow> battle_outcome list \<Rightarrow> int" where
  "medium_wins cur rs =
     int (length (filter (\<lambda>r. won r \<and> effective_difficulty cur r = ''medium'') rs))"

text \<open>
  The invariant of the manager: its current difficulty is \<open>cur\<close>, its counters add up
  to \<open>tw\<close> wins of which \<open>mw\<close> on medium, and the unlocked difficulties are the ones
  these wins have earned.
\<close>

definition dm_inv :: "string \<Rightarrow> dm \<Rightarrow> int \<Rightarrow> int \<Rightarrow> bool" where
  "dm_inv cur s tw mw =
     (currentDifficulty s = cur
      \<and> (case battleStats s of
            None \<Rightarrow> tw = 0 \<and> mw = 0
          | Some es \<Rightarrow>
              (\<exists>a b c la lb lc.
                  es = [(''easy'', \<lparr>wins = a, losses = la\<rparr>),
                        (''medium'', \<lparr>wins = b, losses = lb\<rparr>),
                        (''hard'', \<lparr>wins = c, losses = lc\<rparr>)]
                \<and> a + b + c = tw \<and> b = mw))
      \<and> ''easy'' \<in> set (unlockedDifficulties s)
      \<and> (''medium'' \<in> set (unlockedDifficulties s) \<longleftrightarrow> 5 \<le> tw)
      \<and> (''hard'' \<in> set (unlockedDifficulties s) \<longleftrightarrow> 15 \<le> tw \<and> 8 \<le> mw))"

section \<open>AIOpponent\<close>

record traits =
  attackPreference :: jsnum
  specialAttackUsage :: jsnum
  riskTolerance :: jsnum
  adaptability :: jsnum

record personality =
  personality_name :: string
  personality_traits :: traits

record behavior_params =
  decisionAccuracy :: jsnum
  strategyConsistency :: jsnum
  adaptationSpeed :: jsnum
  mistakeChance :: jsnum
  optimalPlayChance :: jsnum

text \<open>An action chosen by the opponent is a string, or \<^verbatim>\<open>undefined\<close> (\<open>None\<close>).\<close>

record own_action =
  oa_action :: "string option"
  oa_aiHealth :: string
  oa_playerHealth :: string
  oa_urgency :: jsnum
  oa_turn :: int

record ai_memory =
  mem_playerActions :: "string list"
  ownActions :: "own_action list"
  damageDealt :: jsnum
  damageTaken :: jsnum
  turnsElapsed :: int

record ai_opponent =
  ai_difficulty :: string
  ai_personality :: personality
  memory :: ai_memory
  behaviorParams :: behavior_params

record action_tracking =
  lastAction :: "string option"
  consecutiveDefends :: int
  specialAttacksUsed :: int
  lastDamageDealt :: jsnum

record difficulty_bonuses =
  db_specialAttackFrequency :: jsnum
  db_criticalHitChance :: jsnum
  db_experienceReward :: jsnum

text \<open>
  A creature in a battle. An opponent made by \<^verbatim>\<open>generateOpponent\<close> carries the fields
  \<^verbatim>\<open>isOpponent\<close> and \<^verbatim>\<open>difficultyBonuses\<close>; on other creatures they are absent
  (\<open>False\<close>, \<open>None\<close>).
\<close>

record combatant = creature +
  isOpponent :: bool
  difficultyBonuses :: "difficulty_bonuses option"

text \<open>The object \<^verbatim>\<open>makeAIDecision\<close> hands to \<^verbatim>\<open>makeDecision\<close>.\<close>

record battle_state =
  bs_playerCreature :: combatant
  bs_opponentCreature :: combatant
  bs_playerActions :: action_tracking
  bs_opponentActions :: action_tracking
  lastPlayerAction :: "string option"
  lastDamageToAI :: jsnum
  lastDamageToPlayer :: jsnum
  bs_turnCount :: int
  bs_difficulty :: "string option"

record pattern =
  pattern_type :: string
  confidence :: jsnum
  mostCommon :: "string option"
  actionCounts :: "(string \<times> int) list"

record situation =
  aiHealthStatus :: string
  playerHealthStatus :: string
  healthAdvantage :: jsnum
  attackAdvantage :: jsnum
  defenseAdvantage :: jsnum
  speedAdvantage :: jsnum
  sit_turnsElapsed :: int
  damageRatio :: jsnum
  playerPattern :: pattern
  urgency :: jsnum
  canUseSpecial :: bool
  shouldAvoidDefend :: bool

definition getDifficultyParams :: "string \<Rightarrow> behavior_params" where
  "getDifficultyParams d =
     (if d = ''easy''
      then \<lparr> decisionAccuracy = Fin (3 / 5), strategyConsistency = Fin (2 / 5),
             adaptationSpeed = Fin (3 / 10), mistakeChance = Fin (3 / 10),
             optimalPlayChance = Fin (1 / 5) \<rparr>
      else if d = ''hard''
      then \<lparr> decisionAccuracy = Fin (9 / 10), strategyConsistency = Fin (4 / 5),
             adaptationSpeed = Fin (7 / 10), mistakeChance = Fin (1 / 20),
             optimalPlayChance = Fin (7 / 10) \<rparr>
      else \<lparr> decisionAccuracy = Fin (3 / 4), strategyConsistency = Fin (3 / 5),
             adaptationSpeed = Fin (1 / 2), mistakeChance = Fin (3 / 20),
             optimalPlayChance = Fin (2 / 5) \<rparr>)"

text \<open>A number is truthy when it is neither 0 nor \<open>NaN\<close>.\<close>

definition js_truthy :: "jsnum \<Rightarrow> bool" where
  "js_truthy x = (x \<noteq> Fin 0 \<and> x \<noteq> NaN)"

definition updateMemory :: "ai_opponent \<Rightarrow> battle_state \<Rightarrow> ai_opponent" where
  "updateMemory ai bs =
     (let m0 = memory ai;
          m1 = m0\<lparr>turnsElapsed := turnsElapsed m0 + 1\<rparr>;
          m2 = (case lastPlayerAction bs of
                  None \<Rightarrow> m1
                | Some a \<Rightarrow>
                    if a = [] then m1
                    else (let pushed = mem_playerActions m1 @ [a]
                          in m1\<lparr>mem_playerActions :=
                                 (if length pushed > 5 then tl pushed else pushed)\<rparr>));
          m3 = (if js_truthy (lastDamageToAI bs)
                then m2\<lparr>damageTaken := js_add (damageTaken m2) (lastDamageToAI bs)\<rparr> else m2);
          m4 = (if js_truthy (lastDamageToPlayer bs)
                then m3\<lparr>damageDealt := js_add (damageDealt m3) (lastDamageToPlayer bs)\<rparr>
                else m3)
      in ai\<lparr>memory := m4\<rparr>)"

definition getHealthStatus :: "jsnum \<Rightarrow> string" where
  "getHealthStatus hpPercentage =
     (if js_gt hpPercentage (Fin (3 / 4)) then ''healthy''
      else if js_gt hpPercentage (Fin (1 / 2)) then ''wounded''
      else if js_gt hpPercentage (Fin (1 / 4)) then ''critical''
      else ''desperate'')"

text \<open>
  Counting the actions: the entries of the object \<^verbatim>\<open>actionCounts\<close>, in the order in
  which the actions first occur.
\<close>

fun count_actions :: "string list \<Rightarrow> (string \<times> int) list \<Rightarrow> (string \<times> int) list" where
  "count_actions [] counts = counts"
| "count_actions (a # as) counts =
     count_actions as
       (case map_of counts a of
          None \<Rightarrow> counts @ [(a, 1)]
        | Some n \<Rightarrow> map (\<lambda>(k, v). if k = a then (k, v + 1) else (k, v)) counts)"

text \<open>
  \<^verbatim>\<open>keys.reduce((a, b) => counts[a] > counts[b] ? a : b)\<close> with the first key as the
  start value.
\<close>

definition most_common :: "(string \<times> int) list \<Rightarrow> string option" where
  "most_common counts =
     (case counts of
        [] \<Rightarrow> None
      | (k, v) # rest \<Rightarrow> Some (fst (foldl (\<lambda>(a, va) (b, vb). if va > vb then (a, va) else (b, vb))
                                  (k, v) rest)))"

fun alternating_from :: "string list \<Rightarrow> bool" where
  "alternating_from (a # b # c # rest) = (if c \<noteq> a then False else alternating_from (b # c # rest))"
| "alternating_from _ = True"

definition isAlternatingPattern :: "string list \<Rightarrow> bool" where
  "isAlternatingPattern actions = (if length actions < 4 then False else alternating_from actions)"

definition isEscalatingPattern :: "string list \<Rightarrow> bool" where
  "isEscalatingPattern actions =
     (if length actions < 3 then False
      else drop (length actions - 3) actions = [''attack'', ''special'', ''defend''])"

definition analyzePlayerPattern :: "ai_opponent \<Rightarrow> pattern" where
  "analyzePlayerPattern ai =
     (let actions = mem_playerActions (memory ai)
      in if length actions < 2
         then \<lparr> pattern_type = ''unknown'', confidence = Fin 0, mostCommon = None,
                actionCounts = [] \<rparr>
         else
           (let counts = count_actions actions [];
                common = most_common counts;
                conf = (case common of
                          None \<Rightarrow> NaN
                        | Some k \<Rightarrow>
                            (case map_of counts k of
                               None \<Rightarrow> NaN
                             | Some n \<Rightarrow> js_div (jint n) (jint (int (length actions)))));
                patternType =
                  (if js_gt conf (Fin (3 / 5))
                   then (case common of None \<Rightarrow> ''undefined'' | Some k \<Rightarrow> k) @ ''_heavy''
                   else if isAlternatingPattern actions then ''alternating''
                   else if isEscalatingPattern actions then ''escalating''
                   else ''random'')
            in \<lparr> pattern_type = patternType, confidence = conf, mostCommon = common,
                 actionCounts = counts \<rparr>))"

definition calculateUrgency :: "jsnum \<Rightarrow> jsnum \<Rightarrow> jsnum" where
  "calculateUrgency aiHp playerHp =
     (let hpUrgency = js_max (Fin 0) (js_mul (js_sub (Fin (1 / 2)) aiHp) (Fin 2));
          threatUrgency = js_max (Fin 0) (js_mul (js_sub (Fin (3 / 10)) playerHp) (Fin (- 1)))
      in js_min (Fin 1) (js_add hpUrgency threatUrgency))"

definition analyzeBattleSituation :: "ai_opponent \<Rightarrow> battle_state \<Rightarrow> situation" where
  "analyzeBattleSituation ai bs =
     (let aiCreature = bs_opponentCreature bs;
          playerCreature = bs_playerCreature bs;
          aiHpPercentage = js_div (hp (cstats aiCreature)) (maxHp (cstats aiCreature));
          playerHpPercentage = js_div (hp (cstats playerCreature)) (maxHp (cstats playerCreature))
      in \<lparr> aiHealthStatus = getHealthStatus aiHpPercentage,
           playerHealthStatus = getHealthStatus playerHpPercentage,
           healthAdvantage = js_sub aiHpPercentage playerHpPercentage,
           attackAdvantage = js_sub (attack (cstats aiCreature)) (attack (cstats playerCreature)),
           defenseAdvantage = js_sub (defense (cstats aiCreature)) (defense (cstats playerCreature)),
           speedAdvantage = js_sub (speed (cstats aiCreature)) (speed (cstats playerCreature)),
           sit_turnsElapsed = turnsElapsed (memory ai),
           damageRatio = (if js_gt (damageTaken (memory ai)) (Fin 0)
                          then js_div (damageDealt (memory ai)) (damageTaken (memory ai))
                          else Fin 1),
           playerPattern = analyzePlayerPattern ai,
           urgency = calculateUrgency aiHpPercentage playerHpPercentage,
           canUseSpecial = (specialAttacksUsed (bs_opponentActions bs) < 3),
           shouldAvoidDefend = (consecutiveDefends (bs_opponentActions bs) \<ge> 2) \<rparr>)"

text \<open>
  \<^verbatim>\<open>determineStrategy\<close>: the three scores, and the reduction over the keys
  \<^verbatim>\<open>aggressive\<close>, \<^verbatim>\<open>defensive\<close>, \<^verbatim>\<open>tactical\<close> in this order.
\<close>

definition strategy_scores :: "ai_opponent \<Rightarrow> situation \<Rightarrow> jsnum \<times> jsnum \<times> jsnum" where
  "strategy_scores ai sit =
     (let (a1, d1, t1) =
            (if aiHealthStatus sit = ''desperate'' then (Fin (2 / 5), Fin (- 1 / 5), Fin 0)
             else if aiHealthStatus sit = ''critical'' then (Fin 0, Fin (3 / 10), Fin (1 / 5))
             else if aiHealthStatus sit = ''healthy'' then (Fin (1 / 5), Fin 0, Fin 0)
             else (Fin 0, Fin 0, Fin 0));
          a2 = (if js_gt (attackAdvantage sit) (Fin 10) then js_add a1 (Fin (3 / 10)) else a1);
          d2 = (if js_gt (defenseAdvantage sit) (Fin 10) then js_add d1 (Fin (1 / 5)) else d1);
          (a3, d3) = (if js_gt (urgency sit) (Fin (7 / 10))
                      then (js_add a2 (Fin (2 / 5)), js_sub d2 (Fin (3 / 10))) else (a2, d2));
          (a4, d4) = (if pattern_type (playerPattern sit) = ''attack_heavy''
                      then (a3, js_add d3 (Fin (3 / 10)))
                      else if pattern_type (playerPattern sit) = ''defend_heavy''
                      then (js_add a3 (Fin (3 / 10)), d3)
                      else (a3, d3));
          tr = personality_traits (ai_personality ai)
      in (js_add a4 (js_mul (attackPreference tr) (Fin (3 / 10))),
          js_add d4 (js_mul (js_sub (Fin 1) (riskTolerance tr)) (Fin (1 / 5))),
          js_add t1 (js_mul (adaptability tr) (Fin (1 / 5)))))"

definition determineStrategy :: "ai_opponent \<Rightarrow> situation \<Rightarrow> string" where
  "determineStrategy ai sit =
     (let (a, d, t) = strategy_scores ai sit;
          (k1, v1) = (if js_gt a d then (''aggressive'', a) else (''defensive'', d))
      in if js_gt v1 t then k1 else ''tactical'')"

definition executeAggressiveStrategy :: "world \<Rightarrow> situation \<Rightarrow> string \<times> world" where
  "executeAggressiveStrategy w sit =
     (let (special, w1) =
            (if canUseSpecial sit
             then (let (r, w') = Math_random w in (js_lt r (Fin (3 / 5)), w'))
             else (False, w))
      in if special then (''special'', w1)
         else (let (r, w2) = Math_random w1
               in if js_lt r (Fin (4 / 5)) then (''attack'', w2) else (''defend'', w2)))"

definition executeDefensiveStrategy :: "world \<Rightarrow> situation \<Rightarrow> string \<times> world" where
  "executeDefensiveStrategy w sit =
     (if shouldAvoidDefend sit
      then (let (r, w1) = Math_random w
            in (if js_lt r (Fin (7 / 10)) then ''attack'' else ''special'', w1))
      else
        (let (defendLow, w1) =
               (if aiHealthStatus sit = ''critical''
                then (let (r, w') = Math_random w in (js_lt r (Fin (3 / 5)), w'))
                else (False, w))
         in if defendLow then (''defend'', w1)
            else (let (r, w2) = Math_random w1
                  in if js_lt r (Fin (2 / 5)) then (''defend'', w2)
                     else (let (r', w3) = Math_random w2
                           in if js_lt r' (Fin (7 / 10)) then (''attack'', w3)
                              else (''special'', w3)))))"

definition counterPlayerPattern :: "pattern \<Rightarrow> string" where
  "counterPlayerPattern p =
     (if mostCommon p = Some ''attack'' then ''defend''
      else if mostCommon p = Some ''special'' then ''attack''
      else if mostCommon p = Some ''defend'' then ''special''
      else ''attack'')"

definition executeTacticalStrategy :: "world \<Rightarrow> situation \<Rightarrow> string \<times> world" where
  "executeTacticalStrategy w sit =
     (if js_gt (confidence (playerPattern sit)) (Fin (3 / 5))
      then (counterPlayerPattern (playerPattern sit), w)
      else
        (let (special, w1) =
               (if canUseSpecial sit \<and> js_gt (urgency sit) (Fin (1 / 2))
                then (let (r, w') = Math_random w in (js_lt r (Fin (2 / 5)), w'))
                else (False, w))
         in if special then (''special'', w1)
            else (let (rand, w2) = Math_random w1
                  in if js_lt rand (Fin (1 / 2)) then (''attack'', w2)
                     else if js_lt rand (Fin (3 / 4)) then (''defend'', w2)
                     else (''special'', w2))))"

definition executeStrategy :: "world \<Rightarrow> string \<Rightarrow> situation \<Rightarrow> string \<times> world" where
  "executeStrategy w strategy sit =
     (if strategy = ''aggressive'' then executeAggressiveStrategy w sit
      else if strategy = ''defensive'' then executeDefensiveStrategy w sit
      else if strategy = ''tactical'' then executeTacticalStrategy w sit
      else (''attack'', w))"

definition getOptimalAction :: "situation \<Rightarrow> string" where
  "getOptimalAction sit =
     (if aiHealthStatus sit = ''desperate''
      then (if canUseSpecial sit then ''special'' else ''attack'')
      else if playerHealthStatus sit = ''critical'' then ''attack''
      else if js_lt (healthAdvantage sit) (Fin (- 3 / 10)) then ''defend''
      else ''attack'')"

definition applyDifficultyModifications ::
  "ai_opponent \<Rightarrow> world \<Rightarrow> string \<Rightarrow> situation \<Rightarrow> string option \<times> world" where
  "applyDifficultyModifications ai w decision sit =
     (let params = behaviorParams ai;
          (mistake, w1) =
            (if ai_difficulty ai = ''easy''
             then (let (r, w') = Math_random w in (js_lt r (mistakeChance params), w'))
             else (False, w))
      in if mistake
         then (let (r, w2) = Math_random w1
               in (js_index [''attack'', ''special'', ''defend'']
                     (js_floor (js_mul r (Fin 3))), w2))
         else
           (let (optimal, w2) =
                  (if ai_difficulty ai = ''hard''
                   then (let (r, w') = Math_random w1 in (js_lt r (optimalPlayChance params), w'))
                   else (False, w1))
            in if optimal then (Some (getOptimalAction sit), w2) else (Some decision, w2)))"

definition logDecision :: "ai_opponent \<Rightarrow> string option \<Rightarrow> situation \<Rightarrow> ai_opponent" where
  "logDecision ai decision sit =
     (let m = memory ai;
          pushed = ownActions m @
            [\<lparr> oa_action = decision, oa_aiHealth = aiHealthStatus sit,
               oa_playerHealth = playerHealthStatus sit, oa_urgency = urgency sit,
               oa_turn = turnsElapsed m \<rparr>]
      in ai\<lparr>memory := m\<lparr>ownActions := (if length pushed > 10 then tl pushed else pushed)\<rparr>\<rparr>)"

definition makeDecision :: "ai_opponent \<Rightarrow> world \<Rightarrow> battle_state \<Rightarrow> string option \<times> ai_opponent \<times> world" where
  "makeDecision ai w bs =
     (let ai1 = updateMemory ai bs;
          sit = analyzeBattleSituation ai1 bs;
          strategy = determineStrategy ai1 sit;
          (decision0, w1) = executeStrategy w strategy sit;
          (decision, w2) = applyDifficultyModifications ai1 w1 decision0 sit;
          ai2 = logDecision ai1 decision sit
      in (decision, ai2, w2))"

section \<open>BattleEngine\<close>

datatype side = Player | Opponent

datatype battle_status = Active | Won | Lost

text \<open>
  Entries of the battle log. A message is kept as the constant part of its template
  string.
\<close>

datatype log_entry =
    BattleStartEntry string nat
  | ActionEntry side "string option" jsnum bool string nat
  | BattleEndEntry side string jsnum nat

record action_result =
  res_actor :: side
  res_actionType :: "string option"
  res_damage :: jsnum
  res_critical :: bool
  res_blocked :: bool
  res_message :: string
  attackerHp :: jsnum
  defenderHp :: jsnum
  res_timestamp :: nat

record ai_analysis =
  an_turnsElapsed :: int
  an_damageRatio :: jsnum
  an_playerPattern :: pattern
  an_aiPersonality :: string
  an_difficulty :: string

record battle =
  battle_id :: ident
  playerCreature :: combatant
  opponentCreature :: combatant
  difficulty :: "string option"
  currentTurn :: side
  turnCount :: int
  battleLog :: "log_entry list"
  status :: battle_status
  startTime :: nat
  playerActions :: action_tracking
  opponentActions :: action_tracking
  winner :: "side option"
  endTime :: "nat option"
  duration :: "int option"
  experienceReward :: "jsnum option"
  aiAnalysis :: "ai_analysis option"

text \<open>
  The engine: the current battle (\<^verbatim>\<open>null\<close> is \<open>None\<close>), the history, the opponent's AI
  and the difficulty manager, either of which may be absent. \<^verbatim>\<open>this.random\<close> is
  \<^verbatim>\<open>Math.random\<close>.
\<close>

record engine =
  currentBattle :: "battle option"
  battleHistory :: "battle list"
  aiOpponent :: "ai_opponent option"
  difficultyManager :: "dm option"

definition CRITICAL_HIT_BASE_CHANCE :: jsnum where "CRITICAL_HIT_BASE_CHANCE = Fin (1 / 20)"
definition CRITICAL_HIT_LEVEL_BONUS :: jsnum where "CRITICAL_HIT_LEVEL_BONUS = Fin (1 / 100)"
definition CRITICAL_HIT_MULTIPLIER :: jsnum where "CRITICAL_HIT_MULTIPLIER = Fin (3 / 2)"
definition SPECIAL_ATTACK_MULTIPLIER :: jsnum where "SPECIAL_ATTACK_MULTIPLIER = Fin (13 / 10)"
definition DEFEND_DAMAGE_REDUCTION :: jsnum where "DEFEND_DAMAGE_REDUCTION = Fin (1 / 2)"
definition EXPERIENCE_BASE_REWARD :: jsnum where "EXPERIENCE_BASE_REWARD = Fin 50"
definition EXPERIENCE_LEVEL_MULTIPLIER :: jsnum where "EXPERIENCE_LEVEL_MULTIPLIER = Fin 10"

definition creature_of :: "battle \<Rightarrow> side \<Rightarrow> combatant" where
  "creature_of b sd = (case sd of Player \<Rightarrow> playerCreature b | Opponent \<Rightarrow> opponentCreature b)"

definition other_side :: "side \<Rightarrow> side" where
  "other_side sd = (case sd of Player \<Rightarrow> Opponent | Opponent \<Rightarrow> Player)"

definition set_hp :: "battle \<Rightarrow> side \<Rightarrow> jsnum \<Rightarrow> battle" where
  "set_hp b sd v =
     (case sd of
        Player \<Rightarrow> b\<lparr>playerCreature := (playerCreature b)
            \<lparr>cstats := (cstats (playerCreature b))\<lparr>hp := v\<rparr>\<rparr>\<rparr>
      | Opponent \<Rightarrow> b\<lparr>opponentCreature := (opponentCreature b)
            \<lparr>cstats := (cstats (opponentCreature b))\<lparr>hp := v\<rparr>\<rparr>\<rparr>)"

definition set_lastDamageDealt :: "battle \<Rightarrow> side \<Rightarrow> jsnum \<Rightarrow> battle" where
  "set_lastDamageDealt b sd v =
     (case sd of
        Player \<Rightarrow> b\<lparr>playerActions := (playerActions b)\<lparr>lastDamageDealt := v\<rparr>\<rparr>
      | Opponent \<Rightarrow> b\<lparr>opponentActions := (opponentActions b)\<lparr>lastDamageDealt := v\<rparr>\<rparr>)"

text \<open>
  \<^verbatim>\<open>calculateDamage\<close>. The defender's tracking is chosen by \<^verbatim>\<open>currentTurn\<close>, as in the
  source.
\<close>

definition calculateDamage ::
  "battle \<Rightarrow> world \<Rightarrow> combatant \<Rightarrow> combatant \<Rightarrow> bool \<Rightarrow> jsnum \<times> world" where
  "calculateDamage b w attacker defender special =
     (let baseDamage0 = attack (cstats attacker);
          defense0 = defense (cstats defender);
          baseDamage = (if special then js_mul baseDamage0 SPECIAL_ATTACK_MULTIPLIER
                        else baseDamage0);
          defenderActions = (if currentTurn b = Player then opponentActions b
                             else playerActions b);
          defense1 = (if lastAction defenderActions = Some ''defend''
                      then js_mul defense0 (js_add (Fin 1) DEFEND_DAMAGE_REDUCTION)
                      else defense0);
          damage0 = js_max (Fin 1) (js_sub baseDamage defense1);
          (r, w1) = Math_random w;
          randomMultiplier =
            js_add (Fin 1) (js_mul (js_mul (js_sub r (Fin (1 / 2))) (Fin (1 / 5))) (Fin 2));
          damage1 = js_floor (js_mul damage0 randomMultiplier)
      in (js_max (Fin 1) damage1, w1))"

definition checkCriticalHit ::
  "engine \<Rightarrow> world \<Rightarrow> combatant \<Rightarrow> jsnum \<Rightarrow> bool \<times> world" where
  "checkCriticalHit e w attacker modifier =
     (let levelBonus = js_mul (jint (level attacker)) CRITICAL_HIT_LEVEL_BONUS;
          baseChance =
            (case difficultyBonuses attacker of
               Some bonuses \<Rightarrow>
                 if isOpponent attacker \<and> difficultyManager e \<noteq> None
                 then db_criticalHitChance bonuses else CRITICAL_HIT_BASE_CHANCE
             | None \<Rightarrow> CRITICAL_HIT_BASE_CHANCE);
          totalChance = js_mul (js_add baseChance levelBonus) modifier;
          (r, w1) = Math_random w
      in (js_lt r totalChance, w1))"

text \<open>
  \<^verbatim>\<open>executeAction\<close> on the current battle \<open>b\<close>. Both callers pass the creature of the
  acting side as attacker and the other creature as defender. An unknown action type
  throws before anything is written.
\<close>

definition strike ::
  "engine \<Rightarrow> battle \<Rightarrow> world \<Rightarrow> side \<Rightarrow> bool \<Rightarrow> string option \<Rightarrow> action_result \<times> battle \<times> world" where
  "strike e b w actor special actionType =
     (let attacker = creature_of b actor;
          defender = creature_of b (other_side actor);
          (damage0, w1) = calculateDamage b w attacker defender special;
          (crit, w2) = checkCriticalHit e w1 attacker (if special then Fin (1 / 2) else Fin 1);
          damage = (if crit then js_floor (js_mul damage0 CRITICAL_HIT_MULTIPLIER) else damage0);
          newHp = js_max (Fin 0) (js_sub (hp (cstats defender)) damage);
          b1 = set_hp b (other_side actor) newHp;
          b2 = set_lastDamageDealt b1 actor damage;
          msg = (if special
                 then (if crit then ''unleashes a critical special attack''
                       else ''uses a special attack'')
                 else (if crit then ''lands a critical hit'' else ''attacks''))
      in (\<lparr> res_actor = actor, res_actionType = actionType, res_damage = damage,
            res_critical = crit, res_blocked = False, res_message = msg,
            attackerHp = hp (cstats attacker), defenderHp = newHp,
            res_timestamp = clock w \<rparr>, b2, w2))"

definition addBattleLogEntry :: "battle \<Rightarrow> log_entry \<Rightarrow> battle" where
  "addBattleLogEntry b entry = b\<lparr>battleLog := battleLog b @ [entry]\<rparr>"

definition executeAction ::
  "engine \<Rightarrow> battle \<Rightarrow> world \<Rightarrow> side \<Rightarrow> string option \<Rightarrow> (js_error + action_result) \<times> battle \<times> world" where
  "executeAction e b w actor actionType =
     (if actionType = Some ''attack'' \<or> actionType = Some ''special''
      then (let (res, b1, w1) = strike e b w actor (actionType = Some ''special'') actionType
            in (Inr res,
                addBattleLogEntry b1
                  (ActionEntry actor actionType (res_damage res) (res_critical res)
                     (res_message res) (res_timestamp res)),
                w1))
      else if actionType = Some ''defend''
      then (let attacker = creature_of b actor;
                healAmount = js_floor (js_mul (maxHp (cstats attacker)) (Fin (1 / 10)));
                newHp = js_min (maxHp (cstats attacker)) (js_add (hp (cstats attacker)) healAmount);
                b1 = set_hp b actor newHp;
                msg = (if js_gt healAmount (Fin 0) then ''defends and recovers''
                       else ''takes a defensive stance'');
                res = \<lparr> res_actor = actor, res_actionType = actionType, res_damage = Fin 0,
                        res_critical = False, res_blocked = False, res_message = msg,
                        attackerHp = newHp,
                        defenderHp = hp (cstats (creature_of b (other_side actor))),
                        res_timestamp = clock w \<rparr>
            in (Inr res,
                addBattleLogEntry b1 (ActionEntry actor actionType (Fin 0) False msg (clock w)),
                w))
      else (Inl (Thrown ''Unknown action type''), b, w))"

definition updateActionTracking :: "battle \<Rightarrow> side \<Rightarrow> string option \<Rightarrow> battle" where
  "updateActionTracking b actor actionType =
     (let actions0 = (case actor of Player \<Rightarrow> playerActions b | Opponent \<Rightarrow> opponentActions b);
          actions1 = actions0\<lparr>lastAction := actionType\<rparr>;
          actions2 = (if actionType = Some ''defend''
                      then actions1\<lparr>consecutiveDefends := consecutiveDefends actions1 + 1\<rparr>
                      else actions1\<lparr>consecutiveDefends := 0\<rparr>);
          actions3 = (if actionType = Some ''special''
                      then actions2\<lparr>specialAttacksUsed := specialAttacksUsed actions2 + 1\<rparr>
                      else actions2)
      in case actor of
           Player \<Rightarrow> b\<lparr>playerActions := actions3\<rparr>
         | Opponent \<Rightarrow> b\<lparr>opponentActions := actions3\<rparr>)"

definition calculateExperienceReward :: "engine \<Rightarrow> battle \<Rightarrow> side \<Rightarrow> jsnum" where
  "calculateExperienceReward e b win =
     (if win \<noteq> Player then Fin 0
      else
        (let opponentLevel = level (opponentCreature b);
             playerLevel = level (playerCreature b);
             x0 = js_add EXPERIENCE_BASE_REWARD
                    (js_mul (jint opponentLevel) EXPERIENCE_LEVEL_MULTIPLIER);
             x1 = (if opponentLevel > playerLevel
                   then js_add x0 (js_mul (jint (opponentLevel - playerLevel)) (Fin 20))
                   else x0);
             x2 = (case difficultyManager e of
                     Some s \<Rightarrow>
                       js_mul x1 (Fin (experienceMultiplier (getDifficultyConfig s (difficulty b))))
                   | None \<Rightarrow>
                       js_mul x1
                         (if difficulty b = Some ''easy'' then Fin (4 / 5)
                          else if difficulty b = Some ''medium'' then Fin 1
                          else if difficulty b = Some ''hard'' then Fin (13 / 10)
                          else Fin 1))
         in js_floor x2))"

definition getBattleAnalysis :: "ai_opponent \<Rightarrow> ai_analysis" where
  "getBattleAnalysis ai =
     \<lparr> an_turnsElapsed = turnsElapsed (memory ai),
       an_damageRatio = (if js_gt (damageTaken (memory ai)) (Fin 0)
                         then js_div (damageDealt (memory ai)) (damageTaken (memory ai))
                         else Fin 1),
       an_playerPattern = analyzePlayerPattern ai,
       an_aiPersonality = personality_name (ai_personality ai),
       an_difficulty = ai_difficulty ai \<rparr>"

text \<open>
  \<^verbatim>\<open>endBattle\<close> on the current battle \<open>b\<close>. An exception of
  \<^verbatim>\<open>recordBattleResult\<close> leaves the battle ended but not yet in the history.
\<close>

definition endBattle :: "engine \<Rightarrow> battle \<Rightarrow> world \<Rightarrow> side \<Rightarrow> js_error option \<times> engine" where
  "endBattle e b w win =
     (let b1 = b\<lparr>status := (if win = Player then Won else Lost), winner := Some win,
                 endTime := Some (clock w),
                 duration := Some (int (clock w) - int (startTime b))\<rparr>;
          reward = calculateExperienceReward e b1 win;
          b2 = b1\<lparr>experienceReward := Some reward\<rparr>;
          b3 = addBattleLogEntry b2
                 (BattleEndEntry win ''wins the battle!'' reward (clock w));
          b4 = (case aiOpponent e of
                  Some ai \<Rightarrow> b3\<lparr>aiAnalysis := Some (getBattleAnalysis ai)\<rparr>
                | None \<Rightarrow> b3)
      in case difficultyManager e of
           None \<Rightarrow> (None, e\<lparr>currentBattle := Some b4, battleHistory := battleHistory e @ [b4]\<rparr>)
         | Some s \<Rightarrow>
             (case recordBattleResult s \<lparr>won = (win = Player), outcome_difficulty = difficulty b4\<rparr>
              of (Some err, s') \<Rightarrow>
                   (Some err, e\<lparr>currentBattle := Some b4, difficultyManager := Some s'\<rparr>)
               | (None, s') \<Rightarrow>
                   (None, e\<lparr>currentBattle := Some b4, difficultyManager := Some s',
                            battleHistory := battleHistory e @ [b4]\<rparr>)))"

text \<open>
  \<^verbatim>\<open>checkBattleEnd\<close>, called with the current battle \<open>b\<close> already written to the engine:
  whether the battle has ended, or the exception of \<^verbatim>\<open>endBattle\<close>.
\<close>

definition checkBattleEnd :: "engine \<Rightarrow> world \<Rightarrow> (js_error + bool) \<times> engine" where
  "checkBattleEnd e w =
     (case currentBattle e of
        None \<Rightarrow> (Inr True, e)
      | Some b \<Rightarrow>
          if status b \<noteq> Active then (Inr True, e)
          else if js_le (hp (cstats (playerCreature b))) (Fin 0)
          then (case endBattle e b w Opponent of
                  (Some err, e') \<Rightarrow> (Inl err, e') | (None, e') \<Rightarrow> (Inr True, e'))
          else if js_le (hp (cstats (opponentCreature b))) (Fin 0)
          then (case endBattle e b w Player of
                  (Some err, e') \<Rightarrow> (Inl err, e') | (None, e') \<Rightarrow> (Inr True, e'))
          else (Inr False, e))"

definition executePlayerAction ::
  "engine \<Rightarrow> world \<Rightarrow> string \<Rightarrow> (js_error + action_result) \<times> engine \<times> world" where
  "executePlayerAction e w actionType =
     (case currentBattle e of
        None \<Rightarrow> (Inl (Thrown ''No active battle''), e, w)
      | Some b \<Rightarrow>
          if status b \<noteq> Active then (Inl (Thrown ''No active battle''), e, w)
          else if currentTurn b \<noteq> Player then (Inl (Thrown ''Not player turn''), e, w)
          else
            (case executeAction e b w Player (Some actionType) of
               (Inl err, b', w') \<Rightarrow> (Inl err, e\<lparr>currentBattle := Some b'\<rparr>, w')
             | (Inr res, b1, w1) \<Rightarrow>
                 (let b2 = updateActionTracking b1 Player (Some actionType);
                      e2 = e\<lparr>currentBattle := Some b2\<rparr>
                  in case checkBattleEnd e2 w1 of
                       (Inl err, e3) \<Rightarrow> (Inl err, e3, w1)
                     | (Inr True, e3) \<Rightarrow> (Inr res, e3, w1)
                     | (Inr False, e3) \<Rightarrow>
                         (Inr res,
                          e3\<lparr>currentBattle :=
                               map_option (\<lambda>b3. b3\<lparr>currentTurn := Opponent,
                                                    turnCount := turnCount b3 + 1\<rparr>)
                                 (currentBattle e3)\<rparr>,
                          w1))))"





text \<open>The precondition the two action functions test before anything else.\<close>

definition may_act :: "engine \<Rightarrow> side \<Rightarrow> bool" where
  "may_act e sd =
     (case currentBattle e of
        None \<Rightarrow> False
      | Some b \<Rightarrow> status b = Active \<and> currentTurn b = sd)"

text \<open>Concrete states of the opponent's AI and of a battle, used as inputs.\<close>

definition defensive_ai :: ai_opponent where
  "defensive_ai =
     \<lparr> ai_difficulty = ''medium'',
       ai_personality = \<lparr> personality_name = ''Defensive'',
         personality_traits = \<lparr> attackPreference = Fin (3 / 10), specialAttackUsage = Fin (1 / 5),
           riskTolerance = Fin (1 / 5), adaptability = Fin (3 / 5) \<rparr> \<rparr>,
       memory = \<lparr> mem_playerActions = [], ownActions = [], damageDealt = Fin 0,
         damageTaken = Fin 0, turnsElapsed = 0 \<rparr>,
       behaviorParams = getDifficultyParams ''medium'' \<rparr>"

definition sample_combatant :: "jsnum \<Rightarrow> combatant" where
  "sample_combatant h =
     \<lparr> creature_id = GeneratedId 0 (Fin 0), name = ''Ivarno'', barcode = ''12345678'',
       cstats = \<lparr>hp = h, maxHp = Fin 100, attack = Fin 48, defense = Fin 48, speed = Fin 53\<rparr>,
       level = 1, experience = 0, experienceToNext = 100, discoveryDate = 0,
       battlesWon = 0, battlesLost = 0, isOpponent = False, difficultyBonuses = None \<rparr>"

definition fresh_tracking :: action_tracking where
  "fresh_tracking =
     \<lparr> lastAction = None, consecutiveDefends = 0, specialAttacksUsed = 0,
       lastDamageDealt = Fin 0 \<rparr>"

definition capped_tracking :: action_tracking where
  "capped_tracking =
     \<lparr> lastAction = Some ''defend'', consecutiveDefends = 2, specialAttacksUsed = 3,
       lastDamageDealt = Fin 0 \<rparr>"

definition capped_state :: battle_state where
  "capped_state =
     \<lparr> bs_playerCreature = sample_combatant (Fin 50),
       bs_opponentCreature = sample_combatant (Fin 60),
       bs_playerActions = fresh_tracking, bs_opponentActions = capped_tracking,
       lastPlayerAction = None, lastDamageToAI = Fin 0, lastDamageToPlayer = Fin 0,
       bs_turnCount = 6, bs_difficulty = Some ''medium'' \<rparr>"

definition constant_world :: "rat \<Rightarrow> world" where
  "constant_world r = \<lparr> clock = 0, rnd = (\<lambda>i. r), rpos = 0 \<rparr>"

definition sample_battle :: battle where
  "sample_battle =
     \<lparr> battle_id = GeneratedId 0 (Fin 0),
       playerCreature = sample_combatant (Fin 100),
       opponentCreature = sample_combatant (Fin 100),
       difficulty = Some ''medium'', currentTurn = Player, turnCount = 0,
       battleLog = [BattleStartEntry ''Battle begins!'' 0], status = Active, startTime = 0,
       playerActions = fresh_tracking, opponentActions = fresh_tracking,
       winner = None, endTime = None, duration = None, experienceReward = None,
       aiAnalysis = None \<rparr>"



definition unit_stream :: "world \<Rightarrow> bool" where
  "unit_stream w = (\<forall>i. 0 \<le> rnd w i \<and> rnd w i < 1)"





text \<open>
  An engine whose manager was loaded from a progress record saved before any battle: its
  \<^verbatim>\<open>battleStats\<close> is the empty object. The opponent is at 1 hp.
\<close>

definition loaded_dm_engine :: engine where
  "loaded_dm_engine =
     \<lparr> currentBattle = Some (sample_battle\<lparr>opponentCreature := sample_combatant (Fin 1)\<rparr>),
       battleHistory = [], aiOpponent = Some defensive_ai,
       difficultyManager = Some (dm_init\<lparr>battleStats := Some []\<rparr>) \<rparr>"

section \<open>Validation of barcodes\<close>

lemma validateBarcode_iff:
  "validateBarcode s \<longleftrightarrow> list_all is_digit s \<and> 8 \<le> length s \<and> length s \<le> 20"
  by (auto simp: validateBarcode_def test_digits_def MIN_BARCODE_LENGTH_def
      MAX_BARCODE_LENGTH_def)

lemma digit_chars:
  "char_of (48::nat) = CHR ''0''" "char_of (49::nat) = CHR ''1''"
  "char_of (50::nat) = CHR ''2''" "char_of (51::nat) = CHR ''3''"
  "char_of (52::nat) = CHR ''4''" "char_of (53::nat) = CHR ''5''"
  "char_of (54::nat) = CHR ''6''" "char_of (55::nat) = CHR ''7''"
  "char_of (56::nat) = CHR ''8''" "char_of (57::nat) = CHR ''9''"
  by code_simp+

lemma is_digit_iff: "is_digit c \<longleftrightarrow> c \<in> set ''0123456789''"
proof
  assume "is_digit c"
  then have "of_char c \<in> {48..(57::nat)}"
    by (simp add: is_digit_def)
  then have "of_char c \<in> {48, 49, 50, 51, 52, 53, 54, 55, 56, 57 :: nat}"
    by (simp only: atLeastAtMost_iff insert_iff empty_iff) arith
  then have "char_of (of_char c :: nat) \<in> char_of ` {48, 49, 50, 51, 52, 53, 54, 55, 56, 57 :: nat}"
    by (rule imageI)
  then have "c \<in> {char_of (48::nat), char_of (49::nat), char_of (50::nat), char_of (51::nat),
     char_of (52::nat), char_of (53::nat), char_of (54::nat), char_of (55::nat),
     char_of (56::nat), char_of (57::nat)}"
    by (simp only: char_of_char image_insert image_empty)
  then show "c \<in> set ''0123456789''"
    unfolding digit_chars by simp
next
  assume "c \<in> set ''0123456789''"
  then show "is_digit c"
    by (auto simp: is_digit_def)
qed

text \<open>
  C4. \<^verbatim>\<open>validateBarcode(s)\<close> is true if and only if \<open>s\<close> consists only of ASCII digits
  and its length is between 8 and 20 inclusive; strings of length 7 or 21 and strings
  with a non-digit are rejected, all-digit strings of length 8 and 20 are accepted.
\<close>

theorem validateBarcode_spec:
  "(validateBarcode s \<longleftrightarrow>
      (\<forall>c \<in> set s. c \<in> set ''0123456789'') \<and> 8 \<le> length s \<and> length s \<le> 20)
   \<and> (length s = 7 \<or> length s = 21 \<longrightarrow> \<not> validateBarcode s)
   \<and> ((\<exists>c \<in> set s. c \<notin> set ''0123456789'') \<longrightarrow> \<not> validateBarcode s)
   \<and> ((length s = 8 \<or> length s = 20) \<and> (\<forall>c \<in> set s. c \<in> set ''0123456789'')
        \<longrightarrow> validateBarcode s)"
proof -
  have "(validateBarcode s \<longleftrightarrow>
      (\<forall>c \<in> set s. is_digit c) \<and> 8 \<le> length s \<and> length s \<le> 20)
   \<and> (length s = 7 \<or> length s = 21 \<longrightarrow> \<not> validateBarcode s)
   \<and> ((\<exists>c \<in> set s. \<not> is_digit c) \<longrightarrow> \<not> validateBarcode s)
   \<and> ((length s = 8 \<or> length s = 20) \<and> (\<forall>c \<in> set s. is_digit c)
        \<longrightarrow> validateBarcode s)"
    by (auto simp: validateBarcode_iff list_all_iff)
  then show ?thesis
    unfolding is_digit_iff .
qed

theorem validateBarcode_spec_witness:
  "validateBarcode ''12345678'' \<and> \<not> validateBarcode ''1234567''
   \<and> \<not> validateBarcode ''1234567a'' \<and> validateBarcode ''12345678901234567890''
   \<and> \<not> validateBarcode ''123456789012345678901''"
  using validateBarcode_spec [of "''12345678''"] validateBarcode_spec [of "''1234567''"]
    validateBarcode_spec [of "''1234567a''"]
    validateBarcode_spec [of "''12345678901234567890''"]
    validateBarcode_spec [of "''123456789012345678901''"]
  by simp

section \<open>The seeded generator\<close>

lemma good_currentE:
  assumes "good_current c"
  obtains k :: int where "c = jint k" "1 \<le> k" "k \<le> 2147483646"
proof (cases c)
  case (Fin q)
  with assms have q: "q = of_int \<lfloor>q\<rfloor>" "1 \<le> q" "q \<le> 2147483646"
    by (simp_all add: good_current_def)
  have "1 \<le> \<lfloor>q\<rfloor>" "\<lfloor>q\<rfloor> \<le> 2147483646"
    using q(2,3) by (simp_all add: le_floor_iff floor_le_iff)
  then show ?thesis
    using that [of "\<lfloor>q\<rfloor>"] q(1) Fin by simp
qed (use assms in \<open>simp_all add: good_current_def\<close>)

lemma good_current_jint: "1 \<le> k \<Longrightarrow> k \<le> 2147483646 \<Longrightarrow> good_current (jint k)"
  by (simp add: good_current_def)

lemma js_rem_nonneg_int:
  assumes "0 \<le> a" "0 < m"
  shows "js_rem (jint a) (jint m) = jint (a mod m)"
proof -
  have q: "\<not> (of_int a / of_int m < (0::rat))"
    using assms by (simp add: not_less)
  have "a - m * (a div m) = a mod m"
    by (simp add: minus_mult_div_eq_mod)
  then have "(of_int (a - m * (a div m)) :: rat) = of_int (a mod m)"
    by simp
  then have "(of_int a :: rat) - of_int m * of_int \<lfloor>(of_int a :: rat) / of_int m\<rfloor> = of_int (a mod m)"
    by (simp add: floor_divide_of_int_eq)
  then show ?thesis
    using assms q by simp
qed

lemma js_rem_neg_int:
  assumes "a \<le> 0" "0 < m"
  shows "js_rem (jint a) (jint m) = jint (- ((- a) mod m))"
proof (cases "a = 0")
  case True
  then show ?thesis using assms by simp
next
  case False
  then have neg: "of_int a / of_int m < (0::rat)"
    using assms by (simp add: divide_neg_pos)
  have "\<lceil>(of_int a :: rat) / of_int m\<rceil> = - \<lfloor>(of_int (- a) :: rat) / of_int m\<rfloor>"
    by (simp add: ceiling_def)
  also have "\<dots> = - ((- a) div m)"
    by (simp only: floor_divide_of_int_eq)
  finally have c: "\<lceil>(of_int a :: rat) / of_int m\<rceil> = - ((- a) div m)" .
  have "a - m * (- ((- a) div m)) = - ((- a) mod m)"
    by (simp add: algebra_simps flip: minus_mult_div_eq_mod) 
  then have "(of_int a :: rat) - of_int m * of_int (- ((- a) div m)) = of_int (- ((- a) mod m))"
    by (metis of_int_diff of_int_mult)
  then show ?thesis
    using assms neg c by simp
qed

lemma createSeededRandom_good:
  assumes "0 \<le> s"
  shows "good_current (createSeededRandom (jint s))"
proof -
  have r: "js_rem (jint s) (Fin 2147483647) = jint (s mod 2147483647)"
    using js_rem_nonneg_int [OF assms, of 2147483647] by simp
  have b: "0 \<le> s mod 2147483647" "s mod 2147483647 < 2147483647"
    by simp_all
  show ?thesis
  proof (cases "s mod 2147483647 = 0")
    case True
    then show ?thesis
      unfolding createSeededRandom_def r
      by (simp add: js_le_def good_current_def)
  next
    case False
    then show ?thesis
      unfolding createSeededRandom_def r
      using b by (auto simp add: js_le_def Let_def intro!: good_current_jint)
  qed
qed

lemma lcg_step_nonzero:
  assumes "1 \<le> k" "k \<le> 2147483646"
  shows "(k * 16807) mod 2147483647 \<noteq> (0::int)"
proof
  assume "(k * 16807) mod 2147483647 = (0::int)"
  then have d: "(2147483647::int) dvd k * 16807"
    by (simp add: dvd_eq_mod_eq_0)
  have "gcd (2147483647::int) 16807 = 1"
    by code_simp
  then have "coprime (2147483647::int) 16807"
    by (simp only: coprime_iff_gcd_eq_1)
  then have "(2147483647::int) dvd k"
    using d by (simp add: coprime_dvd_mult_left_iff)
  then have "2147483647 \<le> k"
    using assms by (intro zdvd_imp_le) auto
  then show False using assms by simp
qed

lemma seeded_random_good:
  assumes "good_current c"
  shows "unit_draw (fst (seeded_random c)) \<and> good_current (snd (seeded_random c))"
proof -
  from assms obtain k :: int where k: "c = jint k" "1 \<le> k" "k \<le> 2147483646"
    by (rule good_currentE)
  define k' where "k' = (k * 16807) mod 2147483647"
  have r: "js_rem (js_mul c (Fin 16807)) (Fin 2147483647) = jint k'"
    using js_rem_nonneg_int [of "k * 16807" 2147483647] k by (simp add: k'_def)
  have b: "1 \<le> k'" "k' \<le> 2147483646"
    using lcg_step_nonzero [OF k(2,3)] pos_mod_bound [of 2147483647 "k * 16807"]
      pos_mod_sign [of 2147483647 "k * 16807"] by (simp_all add: k'_def)
  have v: "fst (seeded_random c) = Fin ((of_int k' - 1) / 2147483646)"
    "snd (seeded_random c) = jint k'"
    unfolding seeded_random_def r by (simp_all add: Let_def js_sub_def)
  have "0 \<le> (of_int k' - 1 :: rat) / 2147483646" "(of_int k' - 1 :: rat) / 2147483646 < 1"
    using b by simp_all
  then show ?thesis
    unfolding v using b by (simp add: unit_draw_def good_current_jint)
qed

text \<open>
  For a seed that is not negative, the generator starts in \<open>1..2147483646\<close>, stays
  there, and every draw lies in \<open>[0, 1)\<close>.
\<close>

lemma draws_unit:
  "good_current c \<Longrightarrow> list_all unit_draw (draws n c)"
proof (induction n arbitrary: c)
  case 0
  then show ?case by simp
next
  case (Suc n)
  obtain r c' where s: "seeded_random c = (r, c')" by (cases "seeded_random c")
  then have "unit_draw r" "good_current c'"
    using seeded_random_good [OF Suc.prems] by simp_all
  then show ?case
    using Suc.IH [of c'] by (simp add: s)
qed

text \<open>
  C2. The claim is for every integer seed. At the seed \<open>-2147483646\<close> the remainder is
  \<open>-2147483646\<close>, the adjustment adds \<open>2147483646\<close>, and the generator starts from
  \<open>0\<close>: it stays at \<open>0\<close> and every draw is \<open>-1/2147483646\<close>, below \<open>0\<close>.
\<close>

theorem createSeededRandom_negative_seed:
  "createSeededRandom (jint (- 2147483646)) = Fin 0
   \<and> seeded_random (Fin 0) = (Fin (- 1 / 2147483646), Fin 0)
   \<and> draws 3 (createSeededRandom (jint (- 2147483646)))
       = [Fin (- 1 / 2147483646), Fin (- 1 / 2147483646), Fin (- 1 / 2147483646)]
   \<and> js_lt (fst (seeded_random (createSeededRandom (jint (- 2147483646))))) (Fin 0)"
proof -
  have a: "createSeededRandom (jint (- 2147483646)) = Fin 0"
    using js_rem_neg_int [of "- 2147483646" 2147483647]
    by (simp add: createSeededRandom_def js_le_def)
  have b: "seeded_random (Fin 0) = (Fin (- 1 / 2147483646), Fin 0)"
    by (simp add: seeded_random_def js_sub_def)
  show ?thesis
    unfolding a by (simp add: b numeral_3_eq_3)
qed

section \<open>Generated stats\<close>

lemma sum_positions_fin:
  assumes "list_all is_digit b" "0 \<le> a"
  shows "\<exists>t. sum_positions b ps (jint a) = jint t \<and> 0 \<le> t"
  using assms(2)
proof (induction ps arbitrary: a)
  case Nil
  then show ?case by simp
next
  case (Cons pos ps)
  show ?case
  proof (cases "pos < length b")
    case True
    then have "is_digit (b ! pos)"
      using assms(1) by (simp add: list_all_length)
    then have "js_add (jint a) (parseInt_char (b ! pos)) = jint (a + (int (of_char (b ! pos)) - 48))"
      "0 \<le> a + (int (of_char (b ! pos)) - 48)"
      using Cons.prems by (simp_all add: parseInt_char_def is_digit_def)
    then show ?thesis
      using Cons.IH [of "a + (int (of_char (b ! pos)) - 48)"] True by simp
  next
    case False
    then show ?thesis using Cons.IH [OF Cons.prems] by simp
  qed
qed

lemma getStatFromDigits_fin:
  assumes "list_all is_digit b" "ps \<noteq> []"
  shows "\<exists>k. getStatFromDigits b ps (jint lo) (jint hi) = jint k"
proof -
  obtain t where t: "sum_positions b ps (Fin 0) = jint t"
    using sum_positions_fin [OF assms(1), of 0 ps] by auto
  have n: "(of_int (int (length ps) * 9) :: rat) \<noteq> 0"
    using assms(2) by simp
  show ?thesis
    unfolding getStatFromDigits_def t Let_def js_sub_def
    using n by (simp del: of_int_mult of_int_of_nat_eq flip: of_int_add)
qed

lemma generateSeed_loop_fin:
  assumes "list_all is_digit cs" "0 \<le> a"
  shows "\<exists>t. generateSeed_loop cs i (jint a) = jint t \<and> 0 \<le> t"
  using assms
proof (induction cs arbitrary: i a)
  case Nil
  then show ?case by simp
next
  case (Cons c cs)
  define d where "d = int (of_char c) - 48"
  have d: "parseInt_char c = jint d" "0 \<le> d"
    using Cons.prems(1) by (simp_all add: parseInt_char_def is_digit_def d_def)
  have "js_add (jint a) (js_mul (js_mul (parseInt_char c) (jint (int i + 1))) (Fin 31))
      = jint (a + d * (int i + 1) * 31)"
    unfolding d by simp
  moreover have "0 \<le> a + d * (int i + 1) * 31"
    using d(2) Cons.prems(2) by simp
  ultimately show ?case
    using Cons.IH [of "a + d * (int i + 1) * 31" "i + 1"] Cons.prems(1) by simp
qed

lemma generateSeed_good:
  assumes "list_all is_digit b"
  shows "good_current (createSeededRandom (generateSeed b))"
proof -
  obtain t where "generateSeed b = jint t" "0 \<le> t"
    using generateSeed_loop_fin [OF assms, of 0 0] by (auto simp: generateSeed_def)
  then show ?thesis
    using createSeededRandom_good by simp
qed

lemma clamp_perturbed:
  assumes "unit_draw r" "lo \<le> hi"
  shows "\<exists>k. clamp (js_floor (js_add (jint base) (js_sub (js_mul r (Fin w)) (Fin v)))) (jint lo) (jint hi)
           = jint k \<and> lo \<le> k \<and> k \<le> hi"
proof -
  from assms(1) obtain q where q: "r = Fin q"
    by (cases r) (simp_all add: unit_draw_def)
  define x where "x = \<lfloor>of_int base + (q * w - v)\<rfloor>"
  have "js_floor (js_add (jint base) (js_sub (js_mul r (Fin w)) (Fin v))) = jint x"
    by (simp add: q js_sub_def x_def)
  then show ?thesis
    using assms(2) by (auto simp: clamp_def js_max_def js_min_def)
qed

lemma calculateStats_shape:
  assumes dig: "list_all is_digit b"
  shows "\<exists>h a d s. calculateStats b =
           \<lparr>hp = jint h, maxHp = jint h, attack = jint a, defense = jint d, speed = jint s\<rparr>
         \<and> 80 \<le> h \<and> h \<le> 120 \<and> 30 \<le> a \<and> a \<le> 70
         \<and> 25 \<le> d \<and> d \<le> 65 \<and> 20 \<le> s \<and> s \<le> 60"
proof -
  define c0 where "c0 = createSeededRandom (generateSeed b)"
  have g0: "good_current c0"
    unfolding c0_def by (rule generateSeed_good [OF dig])
  obtain r1 c1 where s1: "seeded_random c0 = (r1, c1)" by (cases "seeded_random c0")
  have g1: "unit_draw r1" "good_current c1"
    using seeded_random_good [OF g0] s1 by simp_all
  obtain r2 c2 where s2: "seeded_random c1 = (r2, c2)" by (cases "seeded_random c1")
  have g2: "unit_draw r2" "good_current c2"
    using seeded_random_good [OF g1(2)] s2 by simp_all
  obtain r3 c3 where s3: "seeded_random c2 = (r3, c3)" by (cases "seeded_random c2")
  have g3: "unit_draw r3" "good_current c3"
    using seeded_random_good [OF g2(2)] s3 by simp_all
  obtain r4 c4 where s4: "seeded_random c3 = (r4, c4)" by (cases "seeded_random c3")
  have g4: "unit_draw r4"
    using seeded_random_good [OF g3(2)] s4 by simp_all
  obtain hb where hb: "getStatFromDigits b [0, 1] BASE_HP_MIN BASE_HP_MAX = jint hb"
    using getStatFromDigits_fin [OF dig, of "[0, 1]" 80 120]
    by (auto simp: BASE_HP_MIN_def BASE_HP_MAX_def)
  obtain ab where ab: "getStatFromDigits b [2, 3] BASE_ATTACK_MIN BASE_ATTACK_MAX = jint ab"
    using getStatFromDigits_fin [OF dig, of "[2, 3]" 30 70]
    by (auto simp: BASE_ATTACK_MIN_def BASE_ATTACK_MAX_def)
  obtain db where db: "getStatFromDigits b [4, 5] BASE_DEFENSE_MIN BASE_DEFENSE_MAX = jint db"
    using getStatFromDigits_fin [OF dig, of "[4, 5]" 25 65]
    by (auto simp: BASE_DEFENSE_MIN_def BASE_DEFENSE_MAX_def)
  obtain sb where sb: "getStatFromDigits b [6, 7] BASE_SPEED_MIN BASE_SPEED_MAX = jint sb"
    using getStatFromDigits_fin [OF dig, of "[6, 7]" 20 60]
    by (auto simp: BASE_SPEED_MIN_def BASE_SPEED_MAX_def)
  obtain h where h: "clamp (js_floor (js_add (jint hb) (js_sub (js_mul r1 (Fin 20)) (Fin 10))))
      BASE_HP_MIN BASE_HP_MAX = jint h" "80 \<le> h" "h \<le> 120"
    using clamp_perturbed [OF g1(1), of 80 120 hb 20 10]
    by (auto simp: BASE_HP_MIN_def BASE_HP_MAX_def)
  obtain a where a: "clamp (js_floor (js_add (jint ab) (js_sub (js_mul r2 (Fin 10)) (Fin 5))))
      BASE_ATTACK_MIN BASE_ATTACK_MAX = jint a" "30 \<le> a" "a \<le> 70"
    using clamp_perturbed [OF g2(1), of 30 70 ab 10 5]
    by (auto simp: BASE_ATTACK_MIN_def BASE_ATTACK_MAX_def)
  obtain d where d: "clamp (js_floor (js_add (jint db) (js_sub (js_mul r3 (Fin 10)) (Fin 5))))
      BASE_DEFENSE_MIN BASE_DEFENSE_MAX = jint d" "25 \<le> d" "d \<le> 65"
    using clamp_perturbed [OF g3(1), of 25 65 db 10 5]
    by (auto simp: BASE_DEFENSE_MIN_def BASE_DEFENSE_MAX_def)
  obtain s where s: "clamp (js_floor (js_add (jint sb) (js_sub (js_mul r4 (Fin 10)) (Fin 5))))
      BASE_SPEED_MIN BASE_SPEED_MAX = jint s" "20 \<le> s" "s \<le> 60"
    using clamp_perturbed [OF g4, of 20 60 sb 10 5]
    by (auto simp: BASE_SPEED_MIN_def BASE_SPEED_MAX_def)
  have "calculateStats b =
      \<lparr>hp = jint h, maxHp = jint h, attack = jint a, defense = jint d, speed = jint s\<rparr>"
    unfolding calculateStats_def c0_def [symmetric] Let_def s1 s2 s3 s4 prod.case hb ab db sb
      h(1) a(1) d(1) s(1) by (rule refl)
  then show ?thesis
    using h(2,3) a(2,3) d(2,3) s(2,3) by blast
qed

text \<open>
  C3. For every valid barcode the stats of \<^verbatim>\<open>calculateStats\<close> are integers with
  hp in 80..120, attack in 30..70, defense in 25..65, speed in 20..60, and maxHp is hp.
\<close>

theorem calculateStats_ranges:
  assumes "validateBarcode b"
  shows "\<exists>h a d s. calculateStats b =
           \<lparr>hp = jint h, maxHp = jint h, attack = jint a, defense = jint d, speed = jint s\<rparr>
         \<and> 80 \<le> h \<and> h \<le> 120 \<and> 30 \<le> a \<and> a \<le> 70
         \<and> 25 \<le> d \<and> d \<le> 65 \<and> 20 \<le> s \<and> s \<le> 60"
proof -
  have "list_all is_digit b"
    using assms by (simp add: validateBarcode_iff)
  then show ?thesis
    by (rule calculateStats_shape)
qed

theorem calculateStats_ranges_witness:
  "validateBarcode ''12345678''
   \<and> (\<exists>h a d s. calculateStats ''12345678'' =
           \<lparr>hp = jint h, maxHp = jint h, attack = jint a, defense = jint d, speed = jint s\<rparr>
         \<and> 80 \<le> h \<and> h \<le> 120 \<and> 30 \<le> a \<and> a \<le> 70
         \<and> 25 \<le> d \<and> d \<le> 65 \<and> 20 \<le> s \<and> s \<le> 60)"
proof -
  have v: "validateBarcode ''12345678''"
    by (simp add: validateBarcode_iff is_digit_def)
  show ?thesis
    using v calculateStats_ranges [OF v] by (rule conjI)
qed

text \<open>The stats of the barcode \<open>12345678\<close>, computed.\<close>

lemma calculateStats_12345678:
  "calculateStats ''12345678'' =
     \<lparr>hp = Fin 80, maxHp = Fin 80, attack = Fin 48, defense = Fin 48, speed = Fin 53\<rparr>"
  by code_simp

section \<open>Generated creatures\<close>

lemma js_index_jint:
  "0 \<le> k \<Longrightarrow> nat k < length xs \<Longrightarrow> js_index xs (jint k) = Some (xs ! nat k)"
  by simp

lemma pattern_index:
  assumes "unit_draw r"
  shows "\<exists>p. js_index namePatterns (js_floor (js_mul r (jint (int (length namePatterns))))) = Some p"
proof -
  from assms obtain q where q: "r = Fin q" "0 \<le> q" "q < 1"
    by (cases r) (simp_all add: unit_draw_def)
  have k: "0 \<le> \<lfloor>q * 3\<rfloor>" "\<lfloor>q * 3\<rfloor> < 3"
    using q(2,3) by (simp_all add: floor_less_iff)
  have l: "length namePatterns = 3"
    by (simp add: namePatterns_def)
  have "js_floor (js_mul r (jint (int (length namePatterns)))) = jint \<lfloor>q * 3\<rfloor>"
    by (simp add: q(1) l)
  moreover have "nat \<lfloor>q * 3\<rfloor> < length namePatterns"
    unfolding l using k by linarith
  ultimately show ?thesis
    using js_index_jint [OF k(1), of namePatterns] by (simp only:) blast
qed

lemma generateCreatureName_returns:
  assumes "list_all is_digit b"
  shows "\<exists>nm. generateCreatureName b = Inr nm"
proof -
  define c0 where "c0 = createSeededRandom (generateSeed b)"
  have g0: "good_current c0"
    unfolding c0_def by (rule generateSeed_good [OF assms])
  obtain r1 c1 where s1: "seeded_random c0 = (r1, c1)" by (cases "seeded_random c0")
  have g1: "unit_draw r1" "good_current c1"
    using seeded_random_good [OF g0] s1 by simp_all
  obtain r2 c2 where s2: "seeded_random c1 = (r2, c2)" by (cases "seeded_random c1")
  have g2: "unit_draw r2"
    using seeded_random_good [OF g1(2)] s2 by simp_all
  obtain p where p: "js_index namePatterns (js_floor (js_mul r1 (jint (int (length namePatterns))))) = Some p"
    using pattern_index [OF g1(1)] by blast
  obtain q2 where q2: "r2 = Fin q2"
    using g2 by (cases r2) (simp_all add: unit_draw_def)
  show ?thesis
    unfolding generateCreatureName_def c0_def [symmetric] Let_def s1 s2 prod.case p option.case
    by (simp add: q2 split: prod.split)
qed

lemma validateBarcode_isValidBarcode: "validateBarcode b \<Longrightarrow> isValidBarcode b"
  by (simp add: validateBarcode_def isValidBarcode_def MIN_BARCODE_LENGTH_def split: if_splits)

lemma generated_stats_valid:
  assumes "validateBarcode b"
  shows "isValidCreatureStats (calculateStats b)"
proof -
  obtain h a d s where "calculateStats b =
       \<lparr>hp = jint h, maxHp = jint h, attack = jint a, defense = jint d, speed = jint s\<rparr>"
      "80 \<le> h" "30 \<le> a" "25 \<le> d" "20 \<le> s"
    using calculateStats_shape [of b] assms by (auto simp: validateBarcode_iff)
  then show ?thesis
    by (simp add: isValidCreatureStats_def js_le_def)
qed

lemma generateCreature_returns:
  assumes "validateBarcode b"
  shows "\<exists>c. fst (generateCreature w b) = Inr (Some c) \<and> cstats c = calculateStats b
           \<and> generateCreatureName b = Inr (name c) \<and> barcode c = b \<and> level c = 1
           \<and> experience c = 0"
proof -
  have dig: "list_all is_digit b"
    using assms by (simp add: validateBarcode_iff)
  obtain nm where nm: "generateCreatureName b = Inr nm"
    using generateCreatureName_returns [OF dig] by blast
  obtain i w' where i: "generateId w = (i, w')" by (cases "generateId w")
  define c where "c = \<lparr> creature_id = i, name = nm, barcode = b, cstats = calculateStats b,
     level = 1, experience = 0, experienceToNext = calculateExperienceToNext 1,
     discoveryDate = clock w', battlesWon = 0, battlesLost = 0 \<rparr>"
  have v: "isValidCreature c"
    using validateBarcode_isValidBarcode [OF assms] generated_stats_valid [OF assms]
    by (simp add: isValidCreature_def c_def)
  have "generateCreature w b = (Inr (Some c), w')"
    unfolding generateCreature_def Let_def nm i prod.case sum.case c_def [symmetric]
    using assms v by simp
  then show ?thesis
    by (simp add: c_def nm)
qed

text \<open>
  C1. For every valid barcode, two calls of \<^verbatim>\<open>generateCreature\<close> return creatures with
  the same stats and the same name, whatever the state of the environment (the clock,
  and the draws \<^verbatim>\<open>Math.random\<close> has handed out so far) at either call: each generation
  function builds its own generator from the seed of the barcode.
\<close>

theorem generateCreature_deterministic:
  assumes "validateBarcode b"
  shows "\<exists>c1 c2. fst (generateCreature w1 b) = Inr (Some c1)
           \<and> fst (generateCreature w2 b) = Inr (Some c2)
           \<and> cstats c1 = cstats c2 \<and> name c1 = name c2"
proof -
  obtain c1 where c1: "fst (generateCreature w1 b) = Inr (Some c1)"
    "cstats c1 = calculateStats b" "generateCreatureName b = Inr (name c1)"
    using generateCreature_returns [OF assms, of w1] by blast
  obtain c2 where c2: "fst (generateCreature w2 b) = Inr (Some c2)"
    "cstats c2 = calculateStats b" "generateCreatureName b = Inr (name c2)"
    using generateCreature_returns [OF assms, of w2] by blast
  have "name c1 = name c2"
    using c1(3) c2(3) by simp
  then show ?thesis
    using c1 c2 by auto
qed

theorem generateCreature_deterministic_witness:
  "validateBarcode ''12345678''
   \<and> (\<exists>c1 c2.
         fst (generateCreature \<lparr>clock = 0, rnd = (\<lambda>i. 0), rpos = 0\<rparr> ''12345678'') = Inr (Some c1)
       \<and> fst (generateCreature \<lparr>clock = 7, rnd = (\<lambda>i. 1 / 2), rpos = 3\<rparr> ''12345678'')
           = Inr (Some c2)
       \<and> cstats c1 = cstats c2 \<and> name c1 = name c2)"
proof -
  have v: "validateBarcode ''12345678''"
    by (simp add: validateBarcode_iff is_digit_def)
  show ?thesis
    using v generateCreature_deterministic [OF v] by (rule conjI)
qed

text \<open>The name of the barcode \<open>12345678\<close>, computed.\<close>

lemma generateCreatureName_12345678: "generateCreatureName ''12345678'' = Inr ''Ivarno''"
  by code_simp

section \<open>Experience and levels\<close>

lemma updateStatsForLevel_fields [simp]:
  "level (updateStatsForLevel c) = level c"
  "experience (updateStatsForLevel c) = experience c"
  "experienceToNext (updateStatsForLevel c) = experienceToNext c"
  "barcode (updateStatsForLevel c) = barcode c"
  by (simp_all add: updateStatsForLevel_def Let_def)

lemma checkLevelUp_loop_control:
  "(case checkLevelUp_loop c g of (c', g', w) \<Rightarrow>
      (experience c', experienceToNext c', level c', g', w))
   = level_loop (experience c) (experienceToNext c) (level c) g"
proof (induction c g rule: checkLevelUp_loop.induct)
  case (1 c gained)
  show ?case
  proof (cases "experience c \<ge> experienceToNext c")
    case False
    then show ?thesis
      by (simp add: checkLevelUp_loop.simps [of c gained] level_loop.simps [of "experience c"])
  next
    case True
    note t = this
    show ?thesis
    proof (cases "gained + 1 > 50")
      case True
      then show ?thesis
        using t
        by (simp add: checkLevelUp_loop.simps [of c gained] level_loop.simps [of "experience c"] Let_def)
    next
      case False
      then show ?thesis
        using t "1.IH" [OF t refl refl refl False]
        by (simp add: checkLevelUp_loop.simps [of c gained] level_loop.simps [of "experience c"] Let_def)
    qed
  qed
qed

lemma level_loop_bounds:
  "level_loop xp n lvl g = (xp', n', lvl', g', w) \<Longrightarrow> g \<le> 50 \<Longrightarrow>
     g \<le> g' \<and> g' \<le> 51 \<and> lvl' = lvl + int (g' - g) \<and> (w \<longleftrightarrow> g' = 51)
     \<and> (xp \<ge> n \<longrightarrow> g < g') \<and> (xp < n \<longrightarrow> g' = g \<and> xp' = xp \<and> n' = n)
     \<and> (\<not> w \<longrightarrow> xp' < n')"
proof (induction xp n lvl g rule: level_loop.induct)
  case (1 xp toNext lvl gained)
  show ?case
  proof (cases "xp \<ge> toNext")
    case False
    then show ?thesis using "1.prems" by (auto simp add: level_loop.simps [of xp])
  next
    case True
    note t = this
    show ?thesis
    proof (cases "gained + 1 > 50")
      case True
      then show ?thesis using t "1.prems"
        by (auto simp add: level_loop.simps [of xp])
    next
      case False
      then have "level_loop (xp - toNext) (calculateExperienceToNext (lvl + 1)) (lvl + 1) (gained + 1)
          = (xp', n', lvl', g', w)"
        using t "1.prems"(1) by (simp add: level_loop.simps [of xp])
      from "1.IH" [OF t False this] False t show ?thesis
        by auto
    qed
  qed
qed

lemma level_loop_big:
  "level_loop 1000000000000 100 1 0 = (808713550159, 95643225032, 52, 51, True)"
  by code_simp

lemma checkLevelUp_loop_result:
  assumes "checkLevelUp_loop c 0 = (c', g, w)"
  shows "g \<le> 51" "level c' = level c + int g" "w \<longleftrightarrow> g = 51"
    "experience c \<ge> experienceToNext c \<Longrightarrow> 0 < g"
    "experience c < experienceToNext c \<Longrightarrow> c' = c \<and> g = 0"
proof -
  have l: "level_loop (experience c) (experienceToNext c) (level c) 0
      = (experience c', experienceToNext c', level c', g, w)"
    using checkLevelUp_loop_control [of c 0] assms by simp
  from level_loop_bounds [OF l] show "g \<le> 51" "level c' = level c + int g" "w \<longleftrightarrow> g = 51"
    "experience c \<ge> experienceToNext c \<Longrightarrow> 0 < g"
    by simp_all
  show "c' = c \<and> g = 0" if "experience c < experienceToNext c"
    using that assms by (simp add: checkLevelUp_loop.simps [of c 0])
qed

text \<open>
  C6, as the code has it. For a creature of the collection, \<^verbatim>\<open>awardExperience\<close> fails only
  for a negative amount (and then changes no creature). Otherwise it returns a success
  result, applies at most 51 level-ups (the safety check \<^verbatim>\<open>levelsGained > 50\<close> is tested
  after the level-up, so it stops the loop after the 51st), and reaching the cap writes
  a warning to the console and nothing else.
\<close>

theorem awardExperience_level_cap:
  assumes "creatures m i = Some c"
  shows "case awardExperience m i xp of (r, m') \<Rightarrow>
           (is_success r \<longleftrightarrow> 0 \<le> xp)
         \<and> (\<not> is_success r \<longrightarrow> creatures m' = creatures m)
         \<and> (is_success r \<longrightarrow>
               0 \<le> levelsGained r \<and> levelsGained r \<le> 51
             \<and> (\<exists>c'. creatures m' i = Some c' \<and> level c' = level c + levelsGained r)
             \<and> (\<exists>msg. console m' = console m
                   @ (if levelsGained r = 51
                      then [(WarnLevel, ''Prevented excessive level gain for creature:'')] else [])
                   @ [(LogLevel, msg)]))"
proof (cases "xp < 0")
  case True
  then show ?thesis
    using assms by (simp add: awardExperience_def)
next
  case False
  define c1 where "c1 = c\<lparr>experience := experience c + xp\<rparr>"
  obtain c' g w where l: "checkLevelUp_loop c1 0 = (c', g, w)"
    by (cases "checkLevelUp_loop c1 0")
  have r: "g \<le> 51" "level c' = level c + int g" "w \<longleftrightarrow> g = 51"
    using checkLevelUp_loop_result [OF l] by (simp_all add: c1_def)
  show ?thesis
    using assms False r
    by (simp add: awardExperience_def checkLevelUp_def c1_def [symmetric] l Let_def)
qed

lemma sample_loop:
  "case checkLevelUp_loop (sample_creature\<lparr>experience := 1000000000000\<rparr>) 0 of
     (c', g, w) \<Rightarrow> g = 51 \<and> w \<and> level c' = 52"
  using checkLevelUp_loop_control [of "sample_creature\<lparr>experience := 1000000000000\<rparr>" 0]
  by (simp add: sample_creature_def level_loop_big split: prod.splits)

text \<open>
  C6 as stated (at most 50 level-ups in one call) fails: a level 1 creature awarded
  \<open>10^12\<close> experience gains 51 levels.
\<close>

theorem awardExperience_level_cap_counterexample:
  "levelsGained (fst (awardExperience (sample_manager sample_creature)
      (creature_id sample_creature) 1000000000000)) = 51
   \<and> \<not> levelsGained (fst (awardExperience (sample_manager sample_creature)
      (creature_id sample_creature) 1000000000000)) \<le> 50"
  using sample_loop
  by (simp add: awardExperience_def sample_manager_def checkLevelUp_def Let_def
      sample_creature_def split: prod.splits)

theorem awardExperience_level_cap_witness:
  "creatures (sample_manager sample_creature) (creature_id sample_creature) = Some sample_creature
   \<and> (case awardExperience (sample_manager sample_creature) (creature_id sample_creature) 100
        of (r, m') \<Rightarrow> is_success r \<and> levelsGained r \<le> 51)"
  using awardExperience_level_cap [of "sample_manager sample_creature"
      "creature_id sample_creature" sample_creature 100]
  by (simp add: sample_manager_def split: prod.splits)

text \<open>
  C9, as the code has it. For a creature of the collection whose experience is below
  its \<^verbatim>\<open>experienceToNext\<close>, awarding 0 experience leaves the collection, and so the
  level and all stats of the creature, unchanged.
\<close>

theorem awardExperience_zero:
  assumes "creatures m i = Some c" "experience c < experienceToNext c"
  shows "case awardExperience m i 0 of (r, m') \<Rightarrow>
           creatures m' = creatures m \<and> is_success r \<and> levelsGained r = 0
         \<and> newLevel r = oldLevel r \<and> newLevel r = level c
         \<and> newStats r = oldStats r \<and> newStats r = cstats c"
proof -
  have "checkLevelUp_loop c 0 = (c, 0, False)"
    using assms(2) by (simp add: checkLevelUp_loop.simps [of c 0])
  moreover have "(creatures m)(i \<mapsto> c) = creatures m"
    using assms(1) by (rule map_upd_triv)
  ultimately show ?thesis
    using assms(1) by (simp add: awardExperience_def checkLevelUp_def)
qed

theorem awardExperience_zero_witness:
  "creatures (sample_manager sample_creature) (creature_id sample_creature) = Some sample_creature
   \<and> experience sample_creature < experienceToNext sample_creature
   \<and> (case awardExperience (sample_manager sample_creature) (creature_id sample_creature) 0
        of (r, m') \<Rightarrow> creatures m' = creatures (sample_manager sample_creature)
           \<and> levelsGained r = 0 \<and> newStats r = cstats sample_creature)"
proof -
  have a: "creatures (sample_manager sample_creature) (creature_id sample_creature)
      = Some sample_creature"
    by (simp add: sample_manager_def)
  have b: "experience sample_creature < experienceToNext sample_creature"
    by (simp add: sample_creature_def)
  show ?thesis
    using a b awardExperience_zero [OF a b] by (auto split: prod.splits)
qed

lemma pending_loop:
  "case checkLevelUp_loop pending_creature 0 of (c', g, w) \<Rightarrow> level c' = 2"
  using checkLevelUp_loop_control [of pending_creature 0]
  by (simp add: pending_creature_def sample_creature_def level_loop.simps [of 150]
      level_loop.simps [of 50] calculateExperienceToNext_def BASE_EXPERIENCE_TO_LEVEL_def
      EXPERIENCE_MULTIPLIER_def split: prod.splits)

text \<open>
  C9 as stated (for every creature of the collection) fails: a valid creature holding
  150 experience with \<^verbatim>\<open>experienceToNext\<close> 100 is levelled up by an award of 0.
\<close>

theorem awardExperience_zero_counterexample:
  "isValidCreature pending_creature \<and> level pending_creature = 1
   \<and> (case creatures (snd (awardExperience (sample_manager pending_creature)
                (creature_id pending_creature) 0)) (creature_id pending_creature)
        of Some c' \<Rightarrow> level c' = 2 | None \<Rightarrow> False)"
proof -
  have v: "isValidCreature pending_creature"
    by (simp add: isValidCreature_def pending_creature_def sample_creature_def
        isValidBarcode_def test_digits_def is_digit_def isValidCreatureStats_def js_le_def)
  show ?thesis
    using v pending_loop
    by (simp add: awardExperience_def sample_manager_def checkLevelUp_def Let_def
        split: prod.splits)
       (simp add: pending_creature_def sample_creature_def)
qed

text \<open>
  C5. The claim is that a level-up sets the hp to the floored share of the new \<^verbatim>\<open>maxHp\<close>,
  with a minimum of 1. A creature with \<^verbatim>\<open>hp = maxHp = 0\<close> is valid for
  \<^verbatim>\<open>isValidCreature\<close>; its ratio is \<^verbatim>\<open>0 / 0\<close>, and the level-up leaves its hp at \<open>NaN\<close>,
  not at the minimum of 1 the code announces.
\<close>

theorem levelup_hp_nan:
  "isValidCreature zero_maxhp_creature
   \<and> experience zero_maxhp_creature < experienceToNext zero_maxhp_creature
   \<and> (case creatures (snd (awardExperience (sample_manager zero_maxhp_creature)
                (creature_id zero_maxhp_creature) 100)) (creature_id zero_maxhp_creature)
        of Some c' \<Rightarrow> level c' = 2 \<and> hp (cstats c') = NaN \<and> maxHp (cstats c') = Fin 85
         | None \<Rightarrow> False)"
proof -
  have v: "isValidCreature zero_maxhp_creature"
    by (simp add: isValidCreature_def zero_maxhp_creature_def sample_creature_def
        isValidBarcode_def test_digits_def is_digit_def isValidCreatureStats_def js_le_def)
  have x0: "experience zero_maxhp_creature = 0"
    by (simp add: zero_maxhp_creature_def sample_creature_def)
  define c1 where "c1 = zero_maxhp_creature\<lparr>experience := 100\<rparr>"
  define c2 where "c2 = (updateStatsForLevel (c1\<lparr>experience := 0, level := 2\<rparr>))
     \<lparr>experienceToNext := 150\<rparr>"
  have e: "calculateExperienceToNext 2 = 150"
    by (simp add: calculateExperienceToNext_def BASE_EXPERIENCE_TO_LEVEL_def
        EXPERIENCE_MULTIPLIER_def)
  have l2: "checkLevelUp_loop c2 (Suc 0) = (c2, Suc 0, False)"
    by (subst checkLevelUp_loop.simps) (simp add: c2_def)
  have "checkLevelUp_loop c1 0 = checkLevelUp_loop c2 (Suc 0)"
    by (subst checkLevelUp_loop.simps)
      (simp add: Let_def c1_def zero_maxhp_creature_def sample_creature_def c2_def e)
  then have l1: "checkLevelUp_loop c1 0 = (c2, 1, False)"
    using l2 by simp
  have s: "level c2 = 2" "hp (cstats c2) = NaN" "maxHp (cstats c2) = Fin 85"
    by (simp_all add: c2_def c1_def updateStatsForLevel_def Let_def zero_maxhp_creature_def
        sample_creature_def calculateStats_12345678 calculateStatAtLevel_def
        STAT_GROWTH_PER_LEVEL_def js_max_def)
  have "creatures (snd (awardExperience (sample_manager zero_maxhp_creature)
                (creature_id zero_maxhp_creature) 100)) (creature_id zero_maxhp_creature) = Some c2"
    using x0
    by (simp add: awardExperience_def sample_manager_def checkLevelUp_def
        c1_def [symmetric] l1)
  then show ?thesis
    using v s by (simp add: zero_maxhp_creature_def sample_creature_def)
qed

section \<open>Difficulty unlocks\<close>

lemma isValidDifficulty_iff:
  "isValidDifficulty d \<longleftrightarrow> d = ''easy'' \<or> d = ''medium'' \<or> d = ''hard''"
  by (auto simp: isValidDifficulty_def difficultyStats_def)

lemma unlock_after_count:
  assumes es: "es = [(''easy'', \<lparr>wins = a, losses = la\<rparr>), (''medium'', \<lparr>wins = b, losses = lb\<rparr>),
        (''hard'', \<lparr>wins = c, losses = lc\<rparr>)]"
    and st: "battleStats s = Some es"
    and u: "''easy'' \<in> set (unlockedDifficulties s)"
      "''medium'' \<in> set (unlockedDifficulties s) \<longrightarrow> 5 \<le> a + b + c"
      "''hard'' \<in> set (unlockedDifficulties s) \<longrightarrow> 15 \<le> a + b + c \<and> 8 \<le> b"
  shows "fst (checkDifficultyUnlocks s) = None
    \<and> currentDifficulty (snd (checkDifficultyUnlocks s)) = currentDifficulty s
    \<and> battleStats (snd (checkDifficultyUnlocks s)) = Some es
    \<and> ''easy'' \<in> set (unlockedDifficulties (snd (checkDifficultyUnlocks s)))
    \<and> (''medium'' \<in> set (unlockedDifficulties (snd (checkDifficultyUnlocks s))) \<longleftrightarrow> 5 \<le> a + b + c)
    \<and> (''hard'' \<in> set (unlockedDifficulties (snd (checkDifficultyUnlocks s)))
          \<longleftrightarrow> 15 \<le> a + b + c \<and> 8 \<le> b)"
proof -
  have tw: "getTotalWins s = a + b + c"
    by (simp add: getTotalWins_def st es)
  have mw: "map_of es ''medium'' = Some \<lparr>wins = b, losses = lb\<rparr>"
    by (simp add: es)
  show ?thesis
    using u
    by (simp add: checkDifficultyUnlocks_def st tw mw Let_def isDifficultyUnlocked_def
        unlockDifficulty_def isValidDifficulty_iff medium_battlesWon_def hard_battlesWon_def
        hard_mediumWins_def)
qed

lemma recordBattleResult_inv:
  assumes "dm_inv cur s tw mw"
  shows "dm_inv cur (snd (recordBattleResult s r))
           (tw + (if won r \<and> isValidDifficulty (effective_difficulty cur r) then 1 else 0))
           (mw + (if won r \<and> effective_difficulty cur r = ''medium'' then 1 else 0))"
proof -
  define zero where "zero = [(''easy'', \<lparr>wins = 0, losses = 0\<rparr>),
      (''medium'', \<lparr>wins = 0, losses = 0\<rparr>), (''hard'', \<lparr>wins = (0::int), losses = (0::int)\<rparr>)]"
  define s1 where "s1 = (case battleStats s of None \<Rightarrow> s\<lparr>battleStats := Some zero\<rparr> | Some es \<Rightarrow> s)"
  define d where "d = effective_difficulty cur r"
  have cur: "currentDifficulty s = cur"
    using assms by (simp add: dm_inv_def)
  have "\<exists>a b c la lb lc. battleStats s1 = Some
      [(''easy'', \<lparr>wins = a, losses = la\<rparr>), (''medium'', \<lparr>wins = b, losses = lb\<rparr>),
       (''hard'', \<lparr>wins = c, losses = lc\<rparr>)] \<and> a + b + c = tw \<and> b = mw"
  proof (cases "battleStats s")
    case None
    then have "tw = 0" "mw = 0"
      using assms by (simp_all add: dm_inv_def)
    then show ?thesis
      using None by (simp add: s1_def zero_def)
  next
    case (Some es0)
    then show ?thesis
      using assms by (simp add: dm_inv_def s1_def)
  qed
  then obtain a b c la lb lc where es: "battleStats s1 = Some
      [(''easy'', \<lparr>wins = a, losses = la\<rparr>), (''medium'', \<lparr>wins = b, losses = lb\<rparr>),
       (''hard'', \<lparr>wins = c, losses = lc\<rparr>)]" "a + b + c = tw" "b = mw"
    by blast
  define es where "es = [(''easy'', \<lparr>wins = a, losses = la\<rparr>), (''medium'', \<lparr>wins = b, losses = lb\<rparr>),
       (''hard'', \<lparr>wins = c, losses = lc\<rparr>)]"
  have s1: "currentDifficulty s1 = cur" "unlockedDifficulties s1 = unlockedDifficulties s"
    "battleStats s1 = Some es"
    using cur es(1) by (simp_all add: s1_def es_def split: option.splits)
  have u: "''easy'' \<in> set (unlockedDifficulties s1)"
    "''medium'' \<in> set (unlockedDifficulties s1) \<longleftrightarrow> 5 \<le> tw"
    "''hard'' \<in> set (unlockedDifficulties s1) \<longleftrightarrow> 15 \<le> tw \<and> 8 \<le> mw"
    using assms by (simp_all add: dm_inv_def s1(2))
  have unfold: "recordBattleResult s r =
      (case map_of es d of
         None \<Rightarrow> (Some TypeError, s1)
       | Some st \<Rightarrow>
           (let s2 = s1\<lparr>battleStats := Some (count_result (won r) d es)\<rparr>
            in case checkDifficultyUnlocks s2 of
                 (Some e, s3) \<Rightarrow> (Some e, s3)
               | (None, s3) \<Rightarrow> (None, s3\<lparr>dm_events := dm_events s3 @ [ProgressUpdated]\<rparr>)))"
    unfolding recordBattleResult_def s1_def [unfolded zero_def, symmetric] Let_def
    by (simp add: s1 d_def effective_difficulty_def cong: option.case_cong)
  show ?thesis
  proof (cases "isValidDifficulty d")
    case False
    then have "map_of es d = None"
      by (simp add: es_def isValidDifficulty_iff)
    then have "snd (recordBattleResult s r) = s1"
      by (simp add: unfold)
    moreover have "d \<noteq> ''medium''"
      using False by (simp add: isValidDifficulty_iff)
    ultimately show ?thesis
      using False u s1 es(2,3) by (simp add: dm_inv_def d_def [symmetric] es_def)
  next
    case True
    define a' where "a' = (if won r \<and> d = ''easy'' then a + 1 else a)"
    define b' where "b' = (if won r \<and> d = ''medium'' then b + 1 else b)"
    define c' where "c' = (if won r \<and> d = ''hard'' then c + 1 else c)"
    define la' where "la' = (if \<not> won r \<and> d = ''easy'' then la + 1 else la)"
    define lb' where "lb' = (if \<not> won r \<and> d = ''medium'' then lb + 1 else lb)"
    define lc' where "lc' = (if \<not> won r \<and> d = ''hard'' then lc + 1 else lc)"
    have cr: "count_result (won r) d es =
        [(''easy'', \<lparr>wins = a', losses = la'\<rparr>), (''medium'', \<lparr>wins = b', losses = lb'\<rparr>),
         (''hard'', \<lparr>wins = c', losses = lc'\<rparr>)]"
      by (auto simp: count_result_def es_def a'_def b'_def c'_def la'_def lb'_def lc'_def)
    have sum: "a' + b' + c' = tw + (if won r then 1 else 0)" "b' = mw + (if won r \<and> d = ''medium'' then 1 else 0)"
      using True es(2,3) by (auto simp: a'_def b'_def c'_def isValidDifficulty_iff)
    define s2 where "s2 = s1\<lparr>battleStats := Some (count_result (won r) d es)\<rparr>"
    have s2: "battleStats s2 = Some (count_result (won r) d es)"
      "unlockedDifficulties s2 = unlockedDifficulties s1" "currentDifficulty s2 = cur"
      by (simp_all add: s2_def s1)
    have mono: "''medium'' \<in> set (unlockedDifficulties s2) \<longrightarrow> 5 \<le> a' + b' + c'"
      "''hard'' \<in> set (unlockedDifficulties s2) \<longrightarrow> 15 \<le> a' + b' + c' \<and> 8 \<le> b'"
      using u sum by (auto simp: s2(2))
    have e: "''easy'' \<in> set (unlockedDifficulties s2)"
      using u(1) by (simp add: s2(2))
    note ch = unlock_after_count [OF cr s2(1) e mono]
    obtain s3 where s3: "checkDifficultyUnlocks s2 = (None, s3)"
      using ch by (cases "checkDifficultyUnlocks s2") simp
    have some: "map_of es d \<noteq> None"
      using True by (auto simp: es_def isValidDifficulty_iff)
    have res: "snd (recordBattleResult s r) = s3\<lparr>dm_events := dm_events s3 @ [ProgressUpdated]\<rparr>"
      using some by (auto simp: unfold s2_def [symmetric] s3)
    show ?thesis
      unfolding res using ch s3 s2(3) sum True
      by (simp add: dm_inv_def cr d_def [symmetric])
  qed
qed

lemma record_results_inv:
  "dm_inv cur s tw mw \<Longrightarrow>
     dm_inv cur (record_results s rs) (tw + total_wins cur rs) (mw + medium_wins cur rs)"
proof (induction rs arbitrary: s tw mw)
  case Nil
  then show ?case by (simp add: total_wins_def medium_wins_def)
next
  case (Cons r rs)
  note step = recordBattleResult_inv [OF Cons.prems, of r]
  have t: "total_wins cur (r # rs)
      = (if won r \<and> isValidDifficulty (effective_difficulty cur r) then 1 else 0) + total_wins cur rs"
    by (simp add: total_wins_def)
  have m: "medium_wins cur (r # rs)
      = (if won r \<and> effective_difficulty cur r = ''medium'' then 1 else 0) + medium_wins cur rs"
    by (simp add: medium_wins_def)
  show ?case
    using Cons.IH [OF step] by (simp only: record_results.simps t m add.assoc)
qed

text \<open>
  C8. Starting from a new manager, after any sequence of recorded battle results: easy
  is unlocked; medium is unlocked exactly when the wins over all difficulties have
  reached 5; hard is unlocked exactly when these wins have reached 15 and the wins on
  medium have reached 8. So hard stays locked while the total is 15 or more and the
  medium wins are below 8.
\<close>

theorem unlock_evaluation:
  "''easy'' \<in> set (unlockedDifficulties (record_results dm_init rs))
   \<and> (''medium'' \<in> set (unlockedDifficulties (record_results dm_init rs))
        \<longleftrightarrow> 5 \<le> total_wins ''easy'' rs)
   \<and> (''hard'' \<in> set (unlockedDifficulties (record_results dm_init rs))
        \<longleftrightarrow> 15 \<le> total_wins ''easy'' rs \<and> 8 \<le> medium_wins ''easy'' rs)
   \<and> getTotalWins (record_results dm_init rs) = total_wins ''easy'' rs"
proof -
  have "dm_inv ''easy'' dm_init 0 0"
    by (simp add: dm_inv_def dm_init_def)
  from record_results_inv [OF this, of rs]
  have i: "dm_inv ''easy'' (record_results dm_init rs) (total_wins ''easy'' rs) (medium_wins ''easy'' rs)"
    by simp
  have "0 \<le> total_wins ''easy'' rs"
    by (simp add: total_wins_def)
  then have "getTotalWins (record_results dm_init rs) = total_wins ''easy'' rs"
    using i by (auto simp: dm_inv_def getTotalWins_def split: option.splits)
  then show ?thesis
    using i by (simp add: dm_inv_def)
qed

theorem unlock_evaluation_witness:
  "''medium'' \<in> set (unlockedDifficulties (record_results dm_init
      (replicate 15 \<lparr>won = True, outcome_difficulty = Some ''easy''\<rparr>)))
   \<and> ''hard'' \<notin> set (unlockedDifficulties (record_results dm_init
      (replicate 15 \<lparr>won = True, outcome_difficulty = Some ''easy''\<rparr>)))
   \<and> getTotalWins (record_results dm_init
      (replicate 15 \<lparr>won = True, outcome_difficulty = Some ''easy''\<rparr>)) = 15"
  using unlock_evaluation [of "replicate 15 \<lparr>won = True, outcome_difficulty = Some ''easy''\<rparr>"]
  by (simp add: total_wins_def medium_wins_def effective_difficulty_def or_default_def
      isValidDifficulty_iff)

section \<open>The opponent's decisions\<close>

text \<open>
  C7. The claim is that \<^verbatim>\<open>makeDecision\<close> never returns \<^verbatim>\<open>special\<close> once the opponent has
  used 3 special attacks. The aggressive strategy, the strategic special of the tactical
  strategy and the optimal action test \<^verbatim>\<open>canUseSpecial\<close>; the defensive strategy, the
  balanced branch of the tactical strategy, the counter to a defending player and the
  random mistake do not. Here the opponent has used 3 special attacks and defended
  twice in a row, the defensive strategy is chosen, and the draw \<open>0.9\<close> makes it return
  \<^verbatim>\<open>special\<close>.
\<close>

theorem makeDecision_special_past_cap:
  "specialAttacksUsed (bs_opponentActions capped_state) = 3
   \<and> \<not> canUseSpecial (analyzeBattleSituation (updateMemory defensive_ai capped_state) capped_state)
   \<and> determineStrategy (updateMemory defensive_ai capped_state)
        (analyzeBattleSituation (updateMemory defensive_ai capped_state) capped_state) = ''defensive''
   \<and> fst (makeDecision defensive_ai (constant_world (9 / 10)) capped_state) = Some ''special''"
  by code_simp

section \<open>Executing actions\<close>

lemma Math_random_rnd [simp]:
  "rnd (snd (Math_random w)) = rnd w" "fst (Math_random w) = Fin (rnd w (rpos w))"
  by (simp_all add: Math_random_def)

lemma unit_stream_Math_random [simp]:
  "unit_stream (snd (Math_random w)) = unit_stream w"
  by (simp add: unit_stream_def)








lemma updateActionTracking_difficulty [simp]:
  "difficulty (updateActionTracking b actor a) = difficulty b"
  by (simp add: updateActionTracking_def Let_def split: side.splits)







lemma updateActionTracking_fields [simp]:
  "playerCreature (updateActionTracking b actor a) = playerCreature b"
  "opponentCreature (updateActionTracking b actor a) = opponentCreature b"
  "battleLog (updateActionTracking b actor a) = battleLog b"
  "status (updateActionTracking b actor a) = status b"
  "currentTurn (updateActionTracking b actor a) = currentTurn b"
  "turnCount (updateActionTracking b actor a) = turnCount b"
  by (simp_all add: updateActionTracking_def Let_def split: side.splits)








text \<open>
  Without the condition on the manager a call can throw after the action was executed:
  the attack ends the battle, and recording the result fails on a manager whose
  \<^verbatim>\<open>battleStats\<close> is the empty object.
\<close>

lemma executePlayerAction_dm_throws:
  "may_act loaded_dm_engine Player
   \<and> fst (executePlayerAction loaded_dm_engine (constant_world (1 / 2)) ''attack'') = Inl TypeError
   \<and> map_option status
        (currentBattle (fst (snd (executePlayerAction loaded_dm_engine (constant_world (1 / 2))
           ''attack'')))) = Some Won"
  by code_simp

end
